theory Spec2Isabelle
  imports Complex_Main "HOL-Library.Sublist"
begin

section \<open>Python values and exceptions\<close>

text \<open>
  The values \<^verbatim>\<open>json.loads\<close> returns and \<^verbatim>\<open>json.dumps\<close> takes: \<^verbatim>\<open>None\<close>, \<^verbatim>\<open>bool\<close>,
  \<^verbatim>\<open>int\<close>, \<^verbatim>\<open>float\<close>, \<^verbatim>\<open>str\<close>, \<^verbatim>\<open>list\<close> and \<^verbatim>\<open>dict\<close> (string keys, each key
  once, looked up with \<open>map_of\<close>). The value of a float never decides a branch of the
  consumer, so it is carried as a real number.
\<close>

datatype json =
    JNull
  | JBool bool
  | JInt int
  | JFloat real
  | JStr string
  | JList "json list"
  | JDict "(string \<times> json) list"

text \<open>
  The exceptions the consumer's handlers can meet: what \<^verbatim>\<open>json.loads\<close> raises on text that
  is not JSON (\<open>JSONDecodeError\<close>) or that it refuses for another reason (\<open>ValueError\<close>,
  \<open>RecursionError\<close>), a missing method or a wrong operand type, a send on a socket that
  is gone, and the timeout of \<^verbatim>\<open>asyncio.wait_for\<close>.
\<close>

datatype exn =
    JSONDecodeError
  | ValueError
  | RecursionError
  | AttributeError
  | TypeError
  | IndexError
  | SendError
  | TimeoutError

text \<open>\<^verbatim>\<open>data.get(key, default)\<close>: only a dict has the method.\<close>

fun py_get :: "json \<Rightarrow> string \<Rightarrow> json \<Rightarrow> exn + json" where
  "py_get (JDict kvs) k d = Inr (case map_of kvs k of Some v \<Rightarrow> v | None \<Rightarrow> d)"
| "py_get _ k d = Inl AttributeError"

text \<open>\<^verbatim>\<open>len(x)\<close>: strings, lists and dicts have a length, the other values raise.\<close>

fun py_len :: "json \<Rightarrow> exn + nat" where
  "py_len (JStr s) = Inr (length s)"
| "py_len (JList xs) = Inr (length xs)"
| "py_len (JDict kvs) = Inr (length kvs)"
| "py_len _ = Inl TypeError"

section \<open>State\<close>

text \<open>
  The instance attributes \<^verbatim>\<open>ChatConsumer.__init__\<close> sets. \<^verbatim>\<open>connection_id\<close> is the
  number that names the consumer in the store below. \<open>inst_heartbeat_task\<close> is the
  instance attribute \<^verbatim>\<open>heartbeat_task\<close>: \<open>None\<close> while the instance has no such
  attribute of its own (a read then finds the class attribute), \<open>Some v\<close> once
  \<^verbatim>\<open>self.heartbeat_task = v\<close> has run.
\<close>

record consumer =
  session_id :: "string option"
  message_count :: int
  connection_start :: real
  graceful_close :: bool
  inst_heartbeat_task :: "nat option option"

definition new_consumer :: consumer where
  "new_consumer = \<lparr>session_id = None, message_count = 0, connection_start = 0,
     graceful_close = False, inst_heartbeat_task = None\<rparr>"

text \<open>
  The transport side of a connection: whether the handshake was accepted, whether the
  socket still takes frames, the frames handed to it and the close codes requested.
\<close>

record socket =
  accepted :: bool
  alive :: bool
  outbox :: "json list"
  close_codes :: "int list"

definition new_socket :: socket where
  "new_socket = \<lparr>accepted = False, alive = True, outbox = [], close_codes = []\<rparr>"

text \<open>
  The states of an \<^verbatim>\<open>asyncio\<close> task running \<^verbatim>\<open>heartbeat_loop\<close>: created and not yet
  run, suspended in \<^verbatim>\<open>asyncio.sleep(30)\<close> until the given time, returned, or cancelled
  before it ever ran.
\<close>

datatype task_status =
    Pending
  | Sleeping real
  | Finished
  | Cancelled

text \<open>
  The process: the clock \<^verbatim>\<open>time.time()\<close> reads, the consumer objects and their sockets,
  the class attributes of \<^verbatim>\<open>ChatConsumer\<close>, the tasks created so far, the Django cache
  (value and expiry time per key, with a log of the reads and writes), the channel
  layer's group and the payloads published to it, and the Prometheus metrics.
\<close>

record world =
  now :: real
  consumers :: "nat \<Rightarrow> consumer"
  sockets :: "nat \<Rightarrow> socket"
  active_connections :: "nat list"
  shutdown_initiated :: bool
  heartbeat_task :: "nat option"
  tasks :: "task_status list"
  cache :: "string \<Rightarrow> (int \<times> real) option"
  cache_reads :: "string list"
  cache_writes :: "(string \<times> int \<times> real) list"
  broadcast_group :: "nat list"
  published :: "json list"
  websocket_connections :: int
  websocket_messages :: nat
  websocket_errors :: "string list"
  websocket_heartbeats :: nat
  websocket_connection_duration :: "real list"
  websocket_shutdown_duration :: "real list"

definition init_world :: world where
  "init_world = \<lparr>now = 0, consumers = (\<lambda>_. new_consumer), sockets = (\<lambda>_. new_socket),
     active_connections = [], shutdown_initiated = False, heartbeat_task = None,
     tasks = [], cache = (\<lambda>_. None), cache_reads = [], cache_writes = [],
     broadcast_group = [], published = [], websocket_connections = 0,
     websocket_messages = 0, websocket_errors = [], websocket_heartbeats = 0,
     websocket_connection_duration = [], websocket_shutdown_duration = []\<rparr>"

text \<open>
  A handler's outcome: the exception that left it, if any, and the state it left. The
  exceptions that arise are those of \<^verbatim>\<open>json.loads\<close>, of the operations \<^verbatim>\<open>receive\<close>
  applies to the parsed value, of a \<^verbatim>\<open>send\<close> on a socket that is gone and of the bounded
  wait; the cache and the channel layer answer every call.
\<close>

type_synonym outcome = "exn option \<times> world"

definition upd_consumer :: "nat \<Rightarrow> (consumer \<Rightarrow> consumer) \<Rightarrow> world \<Rightarrow> world" where
  "upd_consumer cid f w = w\<lparr>consumers := (consumers w)(cid := f (consumers w cid))\<rparr>"

definition upd_socket :: "nat \<Rightarrow> (socket \<Rightarrow> socket) \<Rightarrow> world \<Rightarrow> world" where
  "upd_socket cid f w = w\<lparr>sockets := (sockets w)(cid := f (sockets w cid))\<rparr>"

text \<open>\<^verbatim>\<open>self.send(text_data=json.dumps(frame))\<close>: raises when the socket is gone.\<close>

definition send :: "nat \<Rightarrow> json \<Rightarrow> world \<Rightarrow> outcome" where
  "send cid frame w =
     (if alive (sockets w cid)
      then (None, upd_socket cid (\<lambda>s. s\<lparr>outbox := outbox s @ [frame]\<rparr>) w)
      else (Some SendError, w))"

text \<open>\<^verbatim>\<open>self.close(code=code)\<close>.\<close>

definition close :: "nat \<Rightarrow> int \<Rightarrow> world \<Rightarrow> world" where
  "close cid code w = upd_socket cid (\<lambda>s. s\<lparr>close_codes := close_codes s @ [code]\<rparr>) w"

definition errors_inc :: "string \<Rightarrow> world \<Rightarrow> world" where
  "errors_inc error_type w = w\<lparr>websocket_errors := websocket_errors w @ [error_type]\<rparr>"

section \<open>receive\<close>

text \<open>
  The body of the \<^verbatim>\<open>try\<close> in \<^verbatim>\<open>ChatConsumer.receive\<close>. The argument \<open>loaded\<close> is what
  \<^verbatim>\<open>json.loads(text_data)\<close> gives on the frame: the exception it raises or the value it
  returns. The dict passed as \<^verbatim>\<open>extra\<close> to \<^verbatim>\<open>logger.debug\<close> is built whatever the log
  level is, so \<^verbatim>\<open>len(message)\<close> is evaluated after the reply has been sent.
\<close>

definition receive_try :: "nat \<Rightarrow> exn + json \<Rightarrow> world \<Rightarrow> outcome" where
  "receive_try cid loaded w =
     (case loaded of
        Inl e \<Rightarrow> (Some e, w)
      | Inr data \<Rightarrow>
          (case py_get data ''message'' (JStr '''') of
             Inl e \<Rightarrow> (Some e, w)
           | Inr message \<Rightarrow>
               (let w1 = upd_consumer cid (\<lambda>c. c\<lparr>message_count := message_count c + 1\<rparr>) w;
                    w2 = w1\<lparr>websocket_messages := websocket_messages w1 + 1\<rparr>
                in case send cid (JDict [(''count'', JInt (message_count (consumers w2 cid)))]) w2 of
                     (Some e, w3) \<Rightarrow> (Some e, w3)
                   | (None, w3) \<Rightarrow>
                       (case py_len message of
                          Inl e \<Rightarrow> (Some e, w3)
                        | Inr n \<Rightarrow> (None, w3)))))"

text \<open>
  \<^verbatim>\<open>ChatConsumer.receive\<close>: the \<^verbatim>\<open>try\<close> with its two handlers. An exception raised by
  the \<^verbatim>\<open>send\<close> of a handler leaves \<^verbatim>\<open>receive\<close>.
\<close>

definition receive :: "nat \<Rightarrow> exn + json \<Rightarrow> world \<Rightarrow> outcome" where
  "receive cid loaded w =
     (case receive_try cid loaded w of
        (None, w') \<Rightarrow> (None, w')
      | (Some JSONDecodeError, w') \<Rightarrow>
          send cid (JDict [(''error'', JStr ''Invalid JSON'')]) (errors_inc ''invalid_json'' w')
      | (Some e, w') \<Rightarrow>
          send cid (JDict [(''error'', JStr ''Internal error'')]) (errors_inc ''receive_error'' w'))"

section \<open>connect\<close>

text \<open>\<^verbatim>\<open>s.split(sep)\<close> for a non-empty separator, scanning from the left.\<close>

function split_from :: "string \<Rightarrow> string \<Rightarrow> string \<Rightarrow> string list" where
  "split_from sep acc [] = [rev acc]"
| "split_from sep acc (c # cs) =
     (if sep \<noteq> [] \<and> prefix sep (c # cs)
      then rev acc # split_from sep [] (drop (length sep) (c # cs))
      else split_from sep (c # acc) cs)"
  by pat_completeness auto
termination
  by (relation "measure (\<lambda>(sep, acc, s). length s)") auto

definition py_split :: "string \<Rightarrow> string \<Rightarrow> string list" where
  "py_split s sep = split_from sep [] s"

text \<open>\<^verbatim>\<open>sep in s\<close> on strings.\<close>

fun py_in :: "string \<Rightarrow> string \<Rightarrow> bool" where
  "py_in sep [] = (sep = [])"
| "py_in sep (c # cs) = (prefix sep (c # cs) \<or> py_in sep cs)"

text \<open>\<^verbatim>\<open>xs[i]\<close> for an index that is not negative.\<close>

definition py_index :: "'a list \<Rightarrow> nat \<Rightarrow> exn + 'a" where
  "py_index xs i = (if i < length xs then Inr (xs ! i) else Inl IndexError)"

text \<open>
  The Django cache behind \<^verbatim>\<open>get_cached_session\<close> and \<^verbatim>\<open>cache_session\<close>: a key holds a
  value until its expiry time, and \<^verbatim>\<open>cache.set(key, value, timeout)\<close> makes that time
  the present plus the timeout.
\<close>

definition get_cached_session :: "string \<Rightarrow> world \<Rightarrow> int option \<times> world" where
  "get_cached_session sid w =
     (let key = ''ws_session:'' @ sid
      in ((case cache w key of
             Some (v, expires) \<Rightarrow> if now w < expires then Some v else None
           | None \<Rightarrow> None),
          w\<lparr>cache_reads := cache_reads w @ [key]\<rparr>))"

definition cache_session :: "string \<Rightarrow> int \<Rightarrow> world \<Rightarrow> world" where
  "cache_session sid count w =
     (let key = ''ws_session:'' @ sid
      in w\<lparr>cache := (cache w)(key := Some (count, now w + 300)),
           cache_writes := cache_writes w @ [(key, count, 300)]\<rparr>)"

text \<open>
  Reading \<^verbatim>\<open>self.heartbeat_task\<close>: the instance attribute when the instance has one,
  the class attribute otherwise.
\<close>

definition self_heartbeat_task :: "nat \<Rightarrow> world \<Rightarrow> nat option" where
  "self_heartbeat_task cid w =
     (case inst_heartbeat_task (consumers w cid) of
        Some v \<Rightarrow> v
      | None \<Rightarrow> heartbeat_task w)"

text \<open>
  Lines 67 to 78 of \<^verbatim>\<open>connect\<close>: the session identifier is the text after the first
  \<^verbatim>\<open>session_uuid=\<close> of the query string, up to the next \<^verbatim>\<open>&\<close>, or the fresh
  \<^verbatim>\<open>uuid4\<close> when the query string has no \<^verbatim>\<open>session_uuid=\<close>.
\<close>

definition recover_session :: "nat \<Rightarrow> string \<Rightarrow> string \<Rightarrow> world \<Rightarrow> exn + world" where
  "recover_session cid query_params fresh_uuid w =
     (if py_in ''session_uuid='' query_params
      then (case py_index (py_split query_params ''session_uuid='') 1 of
              Inl e \<Rightarrow> Inl e
            | Inr rest \<Rightarrow>
                (case py_index (py_split rest ''&'') 0 of
                   Inl e \<Rightarrow> Inl e
                 | Inr sid \<Rightarrow>
                     (let w1 = upd_consumer cid (\<lambda>c. c\<lparr>session_id := Some sid\<rparr>) w
                      in case get_cached_session sid w1 of
                           (Some cached_count, w2) \<Rightarrow>
                             Inr (upd_consumer cid (\<lambda>c. c\<lparr>message_count := cached_count\<rparr>) w2)
                         | (None, w2) \<Rightarrow> Inr w2)))
      else Inr (upd_consumer cid (\<lambda>c. c\<lparr>session_id := Some fresh_uuid\<rparr>) w))"

text \<open>\<^verbatim>\<open>asyncio.create_task(self.heartbeat_loop())\<close>: the new task's number is its index.\<close>

definition create_task :: "world \<Rightarrow> nat \<times> world" where
  "create_task w = (length (tasks w), w\<lparr>tasks := tasks w @ [Pending]\<rparr>)"

text \<open>
  Lines 80 to 88 of \<^verbatim>\<open>connect\<close>: accept the handshake, add the consumer to the shared
  set, count it in the gauge, join the broadcast group.
\<close>

definition register :: "nat \<Rightarrow> world \<Rightarrow> world" where
  "register cid w =
     (upd_socket cid (\<lambda>s. s\<lparr>accepted := True\<rparr>) w)
       \<lparr>active_connections := List.insert cid (active_connections w),
        websocket_connections := websocket_connections w + 1,
        broadcast_group := List.insert cid (broadcast_group w)\<rparr>"

text \<open>
  Lines 90 to 92 of \<^verbatim>\<open>connect\<close>. The task is stored with
  \<^verbatim>\<open>self.heartbeat_task = ...\<close>, an assignment to the instance.
\<close>

definition start_heartbeat :: "nat \<Rightarrow> world \<Rightarrow> world" where
  "start_heartbeat cid w =
     (if length (active_connections w) = 1 \<and> self_heartbeat_task cid w = None
      then (case create_task w of
              (tid, w') \<Rightarrow>
                upd_consumer cid (\<lambda>c. c\<lparr>inst_heartbeat_task := Some (Some tid)\<rparr>) w')
      else w)"

text \<open>The body of the \<^verbatim>\<open>try\<close> in \<^verbatim>\<open>ChatConsumer.connect\<close>.\<close>

definition connect_try :: "nat \<Rightarrow> string \<Rightarrow> string \<Rightarrow> world \<Rightarrow> outcome" where
  "connect_try cid query_params fresh_uuid w =
     (if shutdown_initiated w then (None, close cid 1001 w)
      else
        (let w1 = upd_consumer cid (\<lambda>c. c\<lparr>connection_start := now w\<rparr>) w
         in case recover_session cid query_params fresh_uuid w1 of
              Inl e \<Rightarrow> (Some e, w1)
            | Inr w2 \<Rightarrow> (None, start_heartbeat cid (register cid w2))))"

definition connect :: "nat \<Rightarrow> string \<Rightarrow> string \<Rightarrow> world \<Rightarrow> outcome" where
  "connect cid query_params fresh_uuid w =
     (case connect_try cid query_params fresh_uuid w of
        (None, w') \<Rightarrow> (None, w')
      | (Some e, w') \<Rightarrow> (None, close cid 1011 (errors_inc ''connection_error'' w')))"

section \<open>disconnect\<close>

text \<open>
  \<^verbatim>\<open>task.cancel()\<close>: a task that never ran is cancelled; in a task suspended in its
  sleep \<^verbatim>\<open>CancelledError\<close> is raised there, which \<^verbatim>\<open>heartbeat_loop\<close> catches to leave
  its loop and return; a task that is over is left as it is.
\<close>

definition task_cancel :: "nat \<Rightarrow> world \<Rightarrow> world" where
  "task_cancel tid w =
     (if tid < length (tasks w)
      then (case tasks w ! tid of
              Pending \<Rightarrow> w\<lparr>tasks := (tasks w)[tid := Cancelled]\<rparr>
            | Sleeping t \<Rightarrow> w\<lparr>tasks := (tasks w)[tid := Finished]\<rparr>
            | Finished \<Rightarrow> w
            | Cancelled \<Rightarrow> w)
      else w)"

definition goodbye :: "int \<Rightarrow> json" where
  "goodbye n = JDict [(''bye'', JBool True), (''total'', JInt n)]"

text \<open>Truth of \<^verbatim>\<open>self.session_id\<close>: neither \<^verbatim>\<open>None\<close> nor the empty string.\<close>

definition truthy :: "string option \<Rightarrow> bool" where
  "truthy s = (case s of None \<Rightarrow> False | Some x \<Rightarrow> x \<noteq> [])"

text \<open>Lines 112 to 114 of \<^verbatim>\<open>disconnect\<close>.\<close>

definition unregister :: "nat \<Rightarrow> world \<Rightarrow> world" where
  "unregister cid w =
     w\<lparr>active_connections := removeAll cid (active_connections w),
       websocket_connections := websocket_connections w - 1\<rparr>"

text \<open>Lines 116 to 119: the duration is tracked when \<^verbatim>\<open>connection_start\<close> is not zero.\<close>

definition track_duration :: "nat \<Rightarrow> world \<Rightarrow> world" where
  "track_duration cid w =
     (if connection_start (consumers w cid) \<noteq> 0
      then w\<lparr>websocket_connection_duration :=
               websocket_connection_duration w @ [now w - connection_start (consumers w cid)]\<rparr>
      else w)"

text \<open>Lines 121 and 122.\<close>

definition leave_group :: "nat \<Rightarrow> world \<Rightarrow> world" where
  "leave_group cid w = w\<lparr>broadcast_group := removeAll cid (broadcast_group w)\<rparr>"

text \<open>Lines 124 to 126.\<close>

definition persist_session :: "nat \<Rightarrow> world \<Rightarrow> world" where
  "persist_session cid w =
     (if truthy (session_id (consumers w cid)) \<and> message_count (consumers w cid) > 0
      then cache_session (the (session_id (consumers w cid))) (message_count (consumers w cid)) w
      else w)"

text \<open>Lines 128 to 136: the inner \<^verbatim>\<open>try\<close> drops whatever the \<^verbatim>\<open>send\<close> raises.\<close>

definition send_goodbye :: "nat \<Rightarrow> int \<Rightarrow> world \<Rightarrow> world" where
  "send_goodbye cid close_code w =
     (if \<not> graceful_close (consumers w cid) \<and> close_code \<noteq> 1001
      then snd (send cid (goodbye (message_count (consumers w cid))) w)
      else w)"

text \<open>Lines 138 to 141.\<close>

definition stop_heartbeat :: "nat \<Rightarrow> world \<Rightarrow> world" where
  "stop_heartbeat cid w =
     (case (if length (active_connections w) = 0 then self_heartbeat_task cid w else None) of
        Some tid \<Rightarrow>
          upd_consumer cid (\<lambda>c. c\<lparr>inst_heartbeat_task := Some None\<rparr>) (task_cancel tid w)
      | None \<Rightarrow> w)"

text \<open>The body of the \<^verbatim>\<open>try\<close> in \<^verbatim>\<open>ChatConsumer.disconnect\<close>.\<close>

definition disconnect_try :: "nat \<Rightarrow> int \<Rightarrow> world \<Rightarrow> outcome" where
  "disconnect_try cid close_code w =
     (None,
      stop_heartbeat cid
        (send_goodbye cid close_code
          (persist_session cid
            (leave_group cid
              (track_duration cid
                (unregister cid w))))))"

definition disconnect :: "nat \<Rightarrow> int \<Rightarrow> world \<Rightarrow> outcome" where
  "disconnect cid close_code w =
     (case disconnect_try cid close_code w of
        (None, w') \<Rightarrow> (None, w')
      | (Some e, w') \<Rightarrow> (None, errors_inc ''disconnect_error'' w'))"

section \<open>heartbeat_loop\<close>

text \<open>The \<^verbatim>\<open>while\<close> test of \<^verbatim>\<open>heartbeat_loop\<close>, followed by \<^verbatim>\<open>asyncio.sleep(30)\<close>.\<close>

definition loop_head :: "world \<Rightarrow> task_status" where
  "loop_head w =
     (if active_connections w \<noteq> [] \<and> \<not> shutdown_initiated w
      then Sleeping (now w + 30)
      else Finished)"

text \<open>
  One turn of the task that runs \<^verbatim>\<open>heartbeat_loop\<close>, from where it is suspended to
  where it suspends next: a new task tests the loop condition; a task whose sleep is
  over tests the shutdown flag, counts and publishes the heartbeat (the timestamp is
  the text \<^verbatim>\<open>datetime.now(timezone.utc).isoformat()\<close> gives) and tests the loop
  condition again; a task whose sleep is not over, or that is over itself, does nothing.
\<close>

definition heartbeat_loop :: "nat \<Rightarrow> string \<Rightarrow> world \<Rightarrow> world" where
  "heartbeat_loop tid timestamp w =
     (if tid < length (tasks w)
      then (case tasks w ! tid of
              Pending \<Rightarrow> w\<lparr>tasks := (tasks w)[tid := loop_head w]\<rparr>
            | Sleeping t \<Rightarrow>
                if now w < t then w
                else if shutdown_initiated w then w\<lparr>tasks := (tasks w)[tid := Finished]\<rparr>
                else (let w1 = w\<lparr>websocket_heartbeats := websocket_heartbeats w + 1\<rparr>;
                          w2 = w1\<lparr>published := published w1 @ [JDict [(''ts'', JStr timestamp)]]\<rparr>
                      in w2\<lparr>tasks := (tasks w2)[tid := loop_head w2]\<rparr>)
            | Finished \<Rightarrow> w
            | Cancelled \<Rightarrow> w)
      else w)"

text \<open>A task is active while it has neither returned nor been cancelled.\<close>

fun active :: "task_status \<Rightarrow> bool" where
  "active Pending = True"
| "active (Sleeping t) = True"
| "active Finished = False"
| "active Cancelled = False"

definition active_tasks :: "world \<Rightarrow> nat" where
  "active_tasks w = length (filter active (tasks w))"

section \<open>graceful_shutdown\<close>

text \<open>The body of the \<^verbatim>\<open>for\<close> loop of \<^verbatim>\<open>graceful_shutdown\<close>, up to the goodbye.\<close>

definition say_goodbye :: "nat \<Rightarrow> world \<Rightarrow> world" where
  "say_goodbye cid w =
     (let w1 = upd_consumer cid (\<lambda>c. c\<lparr>graceful_close := True\<rparr>) w
      in snd (send cid (goodbye (message_count (consumers w1 cid))) w1))"

text \<open>
  \<^verbatim>\<open>asyncio.wait_for(aw, timeout)\<close> on an awaitable that needs \<open>duration\<close> seconds
  (\<open>None\<close>: it never completes): it returns once the awaitable is done, or raises
  \<^verbatim>\<open>TimeoutError\<close> when the timeout has passed.
\<close>

definition wait_for :: "real option \<Rightarrow> real \<Rightarrow> world \<Rightarrow> outcome" where
  "wait_for duration timeout w =
     (case duration of
        Some d \<Rightarrow>
          if d < timeout then (None, w\<lparr>now := now w + d\<rparr>)
          else (Some TimeoutError, w\<lparr>now := now w + timeout\<rparr>)
      | None \<Rightarrow> (Some TimeoutError, w\<lparr>now := now w + timeout\<rparr>))"

text \<open>
  \<^verbatim>\<open>ChatConsumer.graceful_shutdown\<close>. \<open>gather_time\<close> is the time the gathered closes
  need. The closes are coroutines that run once \<^verbatim>\<open>asyncio.gather\<close> has them.
\<close>

definition graceful_shutdown :: "real option \<Rightarrow> world \<Rightarrow> outcome" where
  "graceful_shutdown gather_time w =
     (let shutdown_start = now w;
          w1 = w\<lparr>shutdown_initiated := True\<rparr>;
          w2 = (case heartbeat_task w1 of Some tid \<Rightarrow> task_cancel tid w1 | None \<Rightarrow> w1);
          snapshot = active_connections w2;
          w3 = fold say_goodbye snapshot w2
      in case (if snapshot \<noteq> []
               then wait_for gather_time 9 (fold (\<lambda>cid. close cid 1001) snapshot w3)
               else (None, w3)) of
           (Some e, w4) \<Rightarrow> (Some e, w4)
         | (None, w4) \<Rightarrow>
             (None, w4\<lparr>websocket_shutdown_duration :=
                          websocket_shutdown_duration w4 @ [now w4 - shutdown_start]\<rparr>))"

section \<open>Executions\<close>

text \<open>
  What happens to the process, one event at a time: time passes, a client connects
  (with its query string, and the \<^verbatim>\<open>uuid4\<close> drawn for it), a frame arrives, a
  connection is closed, a socket goes away, a heartbeat task gets its turn, the
  shutdown is triggered. Each handler runs to its end before the next event.
\<close>

datatype event =
    Tick real
  | Connect nat string string
  | Receive nat "exn + json"
  | Disconnect nat int
  | SocketGone nat
  | Heartbeat nat string
  | Shutdown "real option"

fun step :: "event \<Rightarrow> world \<Rightarrow> world" where
  "step (Tick d) w = w\<lparr>now := now w + max 0 d\<rparr>"
| "step (Connect cid q u) w = snd (connect cid q u w)"
| "step (Receive cid loaded) w = snd (receive cid loaded w)"
| "step (Disconnect cid code) w = snd (disconnect cid code w)"
| "step (SocketGone cid) w = upd_socket cid (\<lambda>s. s\<lparr>alive := False\<rparr>) w"
| "step (Heartbeat tid ts) w = heartbeat_loop tid ts w"
| "step (Shutdown gather_time) w = snd (graceful_shutdown gather_time w)"

definition run :: "event list \<Rightarrow> world \<Rightarrow> world" where
  "run es w = fold step es w"

section \<open>Notions the properties are stated with\<close>

text \<open>A JSON object, and a value \<^verbatim>\<open>len\<close> accepts.\<close>

fun is_dict :: "json \<Rightarrow> bool" where
  "is_dict (JDict kvs) = True"
| "is_dict _ = False"

fun has_len :: "json \<Rightarrow> bool" where
  "has_len (JStr s) = True"
| "has_len (JList xs) = True"
| "has_len (JDict kvs) = True"
| "has_len _ = False"

text \<open>
  A counted frame: it parses to a JSON object whose \<^verbatim>\<open>message\<close> entry is absent or is a
  string, a list or an object.
\<close>

fun counted :: "exn + json \<Rightarrow> bool" where
  "counted (Inr (JDict kvs)) =
     (case map_of kvs ''message'' of None \<Rightarrow> True | Some v \<Rightarrow> has_len v)"
| "counted _ = False"

text \<open>
  The replies the specification gives for a sequence of frames on a connection whose
  count is \<open>n\<close>: \<^verbatim>\<open>{"error": "Invalid JSON"}\<close> for a frame that does not parse,
  \<^verbatim>\<open>{"count": n + 1}\<close> for the next frame that does.
\<close>

fun replies :: "int \<Rightarrow> (exn + json) list \<Rightarrow> json list" where
  "replies n [] = []"
| "replies n (f # fs) =
     (if f = Inl JSONDecodeError
      then JDict [(''error'', JStr ''Invalid JSON'')] # replies n fs
      else JDict [(''count'', JInt (n + 1))] # replies (n + 1) fs)"

text \<open>The gathered closes are not done within the nine seconds.\<close>

definition timed_out :: "real option \<Rightarrow> bool" where
  "timed_out gather_time = (case gather_time of None \<Rightarrow> True | Some d \<Rightarrow> \<not> d < 9)"

text \<open>The unexpired record of a session identifier, as \<^verbatim>\<open>cache.get\<close> returns it.\<close>

definition session_record :: "world \<Rightarrow> string \<Rightarrow> int option" where
  "session_record w sid = fst (get_cached_session sid w)"

text \<open>A process with one open connection, number 1, that has a fresh session.\<close>

definition one_open :: world where
  "one_open = run [Connect 1 [] ''u1'', Heartbeat 0 ''t0''] init_world"

text \<open>
  Two clients connect, both leave, the one that came first leaving first, and a third
  client connects, all within five seconds; the heartbeat tasks get their turns.
\<close>

definition come_and_go :: "event list" where
  "come_and_go =
     [Connect 1 [] ''u1'', Heartbeat 0 ''t0'', Tick 1, Connect 2 [] ''u2'', Tick 1,
      Disconnect 1 1000, Tick 1, Disconnect 2 1000]"

definition come_back :: "event list" where
  "come_back = come_and_go @ [Tick 1, Connect 3 [] ''u3'', Heartbeat 1 ''t1'']"

text \<open>Then both heartbeat tasks wake when their sleeps are over.\<close>

definition both_beat :: "event list" where
  "both_beat = come_back @ [Tick 26, Heartbeat 0 ''t2'', Tick 4, Heartbeat 1 ''t3'']"

text \<open>The same process once the shutdown has run, its closes done after one second.\<close>

definition after_shutdown :: world where
  "after_shutdown = run [Shutdown (Some 1)] one_open"

text \<open>
  A client connects with \<^verbatim>\<open>session_uuid=S1\<close> and sends three messages; another connects
  with an empty \<^verbatim>\<open>session_uuid=\<close> and sends one.
\<close>

definition three_sent :: world where
  "three_sent =
     run [Connect 1 ''session_uuid=S1'' ''u1'', Heartbeat 0 ''t0'',
          Receive 1 (Inr (JDict [(''message'', JStr ''a'')])),
          Receive 1 (Inr (JDict [(''message'', JStr ''b'')])),
          Receive 1 (Inr (JDict [(''message'', JStr ''c'')]))] init_world"

definition empty_session :: world where
  "empty_session =
     run [Connect 1 ''session_uuid='' ''u1'', Heartbeat 0 ''t0'',
          Receive 1 (Inr (JDict [(''message'', JStr ''a'')]))] init_world"

text \<open>
  The state \<^verbatim>\<open>graceful_shutdown\<close> has reached when its wait begins, or is skipped: flag
  set, heartbeat task of the class cancelled, goodbyes sent, closes requested.
\<close>

definition before_wait :: "world \<Rightarrow> world" where
  "before_wait w =
     (let w1 = w\<lparr>shutdown_initiated := True\<rparr>;
          w2 = (case heartbeat_task w1 of Some tid \<Rightarrow> task_cancel tid w1 | None \<Rightarrow> w1);
          w3 = fold say_goodbye (active_connections w2) w2
      in if active_connections w2 \<noteq> []
         then fold (\<lambda>cid. close cid 1001) (active_connections w2) w3
         else w3)"

section \<open>Auxiliary facts\<close>

lemmas handler_defs =
  connect_def connect_try_def recover_session_def get_cached_session_def cache_session_def
  self_heartbeat_task_def create_task_def disconnect_def disconnect_try_def truthy_def
  register_def start_heartbeat_def unregister_def track_duration_def leave_group_def
  persist_session_def send_goodbye_def stop_heartbeat_def
  task_cancel_def goodbye_def heartbeat_loop_def loop_head_def graceful_shutdown_def
  say_goodbye_def wait_for_def receive_def receive_try_def send_def close_def errors_inc_def
  upd_consumer_def upd_socket_def py_index_def py_split_def

lemmas state_defs = init_world_def new_consumer_def new_socket_def run_def

lemma run_Nil: "run [] w = w"
  by (simp add: run_def)

lemma run_Cons: "run (e # es) w = run es (step e w)"
  by (simp add: run_def)

lemma run_append: "run (es @ es') w = run es' (run es w)"
  by (simp add: run_def)

lemma one_open_alive: "alive (sockets one_open 1)"
  by (simp add: one_open_def handler_defs state_defs)

lemma one_open_outbox: "outbox (sockets one_open 1) = []"
  by (simp add: one_open_def handler_defs state_defs)

lemma one_open_count: "message_count (consumers one_open 1) = 0"
  by (simp add: one_open_def handler_defs state_defs)

lemma one_open_registry: "active_connections one_open = [1]"
  by (simp add: one_open_def handler_defs state_defs)

lemma one_open_closes: "close_codes (sockets one_open 1) = []"
  by (simp add: one_open_def handler_defs state_defs)

subsection \<open>One frame\<close>

lemma py_get_non_dict: "\<not> is_dict data \<Longrightarrow> py_get data k d = Inl AttributeError"
  by (cases data) simp_all

lemma receive_non_dict:
  assumes "\<not> is_dict data" and "alive (sockets w cid)"
  shows "receive cid (Inr data) w =
     (None, upd_socket cid
        (\<lambda>s. s\<lparr>outbox := outbox s @ [JDict [(''error'', JStr ''Internal error'')]]\<rparr>)
        (errors_inc ''receive_error'' w))"
  using assms
  by (simp add: receive_def receive_try_def py_get_non_dict send_def errors_inc_def upd_socket_def)

lemma receive_counted:
  assumes "counted f" and "alive (sockets w cid)"
  shows "receive cid f w =
     (None, upd_socket cid
        (\<lambda>s. s\<lparr>outbox := outbox s @
             [JDict [(''count'', JInt (message_count (consumers w cid) + 1))]]\<rparr>)
        ((upd_consumer cid (\<lambda>c. c\<lparr>message_count := message_count c + 1\<rparr>) w)
           \<lparr>websocket_messages := websocket_messages w + 1\<rparr>))"
proof -
  from assms(1) obtain kvs where f: "f = Inr (JDict kvs)"
    by (cases f rule: counted.cases) simp_all
  from assms(1) f
  have "\<exists>n. py_len (case map_of kvs ''message'' of Some v \<Rightarrow> v | None \<Rightarrow> JStr []) = Inr n"
    by (cases "map_of kvs ''message''") (auto elim: has_len.elims)
  then obtain n
    where n: "py_len (case map_of kvs ''message'' of Some v \<Rightarrow> v | None \<Rightarrow> JStr []) = Inr n" ..
  show ?thesis
    using assms(2) n
    by (simp add: f receive_def receive_try_def send_def upd_consumer_def upd_socket_def)
qed

lemma receive_invalid:
  assumes "alive (sockets w cid)"
  shows "receive cid (Inl JSONDecodeError) w =
     (None, upd_socket cid
        (\<lambda>s. s\<lparr>outbox := outbox s @ [JDict [(''error'', JStr ''Invalid JSON'')]]\<rparr>)
        (errors_inc ''invalid_json'' w))"
  using assms
  by (simp add: receive_def receive_try_def send_def errors_inc_def upd_socket_def)

lemma receive_invalid_fields:
  assumes "alive (sockets w cid)"
  shows "outbox (sockets (snd (receive cid (Inl JSONDecodeError) w)) cid) =
           outbox (sockets w cid) @ [JDict [(''error'', JStr ''Invalid JSON'')]]"
    and "consumers (snd (receive cid (Inl JSONDecodeError) w)) = consumers w"
    and "active_connections (snd (receive cid (Inl JSONDecodeError) w)) = active_connections w"
    and "close_codes (sockets (snd (receive cid (Inl JSONDecodeError) w)) cid) =
           close_codes (sockets w cid)"
    and "alive (sockets (snd (receive cid (Inl JSONDecodeError) w)) cid)"
  using assms by (simp_all add: receive_invalid upd_socket_def errors_inc_def)

lemma receive_counted_fields:
  assumes "counted f" and "alive (sockets w cid)"
  shows "outbox (sockets (snd (receive cid f w)) cid) =
           outbox (sockets w cid) @
             [JDict [(''count'', JInt (message_count (consumers w cid) + 1))]]"
    and "message_count (consumers (snd (receive cid f w)) cid) =
           message_count (consumers w cid) + 1"
    and "active_connections (snd (receive cid f w)) = active_connections w"
    and "close_codes (sockets (snd (receive cid f w)) cid) = close_codes (sockets w cid)"
    and "alive (sockets (snd (receive cid f w)) cid)"
  using assms by (simp_all add: receive_counted upd_socket_def upd_consumer_def)

section \<open>Properties of receive\<close>

text \<open>
  C10. A frame that parses as JSON to something other than an object (a number, a
  string, a list, a boolean, null) makes \<^verbatim>\<open>receive\<close> on an open connection reply
  \<^verbatim>\<open>{"error": "Internal error"}\<close>: \<^verbatim>\<open>data.get\<close> raises \<^verbatim>\<open>AttributeError\<close> before the
  count is touched, the generic handler counts an error of kind \<^verbatim>\<open>receive_error\<close>, the
  message count and the message counter keep their values, and the connection stays
  registered, unclosed and able to send.
\<close>

theorem receive_non_object:
  assumes "\<not> is_dict data" and "alive (sockets w cid)"
  shows "fst (receive cid (Inr data) w) = None
    \<and> outbox (sockets (snd (receive cid (Inr data) w)) cid) =
        outbox (sockets w cid) @ [JDict [(''error'', JStr ''Internal error'')]]
    \<and> message_count (consumers (snd (receive cid (Inr data) w)) cid) =
        message_count (consumers w cid)
    \<and> websocket_messages (snd (receive cid (Inr data) w)) = websocket_messages w
    \<and> websocket_errors (snd (receive cid (Inr data) w)) =
        websocket_errors w @ [''receive_error'']
    \<and> active_connections (snd (receive cid (Inr data) w)) = active_connections w
    \<and> close_codes (sockets (snd (receive cid (Inr data) w)) cid) = close_codes (sockets w cid)
    \<and> alive (sockets (snd (receive cid (Inr data) w)) cid)"
  using assms
  by (simp add: receive_non_dict errors_inc_def upd_socket_def)

theorem receive_non_object_witness:
  "\<not> is_dict (JInt 5) \<and> alive (sockets one_open 1)
   \<and> outbox (sockets (snd (receive 1 (Inr (JInt 5)) one_open)) 1) =
       [JDict [(''error'', JStr ''Internal error'')]]
   \<and> message_count (consumers (snd (receive 1 (Inr (JInt 5)) one_open)) 1) = 0"
proof -
  have h1: "\<not> is_dict (JInt 5)" by simp
  have h2: "alive (sockets one_open 1)" by (rule one_open_alive)
  show ?thesis
    using receive_non_object [OF h1 h2] h1 h2 one_open_outbox one_open_count by simp
qed

text \<open>
  C1, as the claim states it, fails: the frame \<^verbatim>\<open>5\<close> parses as JSON, and on the open
  connection 1 \<^verbatim>\<open>receive\<close> neither adds one to the count nor replies with a count.
\<close>

theorem receive_number_counterexample:
  "message_count (consumers (snd (receive 1 (Inr (JInt 5)) one_open)) 1) \<noteq>
     message_count (consumers one_open 1) + 1
   \<and> outbox (sockets (snd (receive 1 (Inr (JInt 5)) one_open)) 1) =
     outbox (sockets one_open 1) @ [JDict [(''error'', JStr ''Internal error'')]]"
proof -
  have h1: "\<not> is_dict (JInt 5)" by simp
  show ?thesis
    using one_open_alive
    by (simp add: receive_non_dict [OF h1] errors_inc_def upd_socket_def)
qed

text \<open>
  C1, amended. On an open connection, every frame that parses to a JSON object whose
  \<^verbatim>\<open>message\<close> entry is absent or is a string, a list or an object adds exactly one to
  the message count and is answered \<^verbatim>\<open>{"count": messageCount}\<close>; every frame on which
  \<^verbatim>\<open>json.loads\<close> raises \<^verbatim>\<open>JSONDecodeError\<close> is answered \<^verbatim>\<open>{"error": "Invalid JSON"}\<close>
  and leaves the count as it is; the connection stays registered, unclosed and able to
  send. So a sequence of such frames is answered by the replies of the specification,
  the counts running on from the connection's count, and the count grows by the number
  of counted frames.
\<close>

theorem receive_frames:
  assumes "alive (sockets w cid)"
    and "\<forall>f \<in> set fs. f = Inl JSONDecodeError \<or> counted f"
  shows "outbox (sockets (run (map (Receive cid) fs) w) cid) =
           outbox (sockets w cid) @ replies (message_count (consumers w cid)) fs
    \<and> message_count (consumers (run (map (Receive cid) fs) w) cid) =
           message_count (consumers w cid) + int (length (filter counted fs))
    \<and> active_connections (run (map (Receive cid) fs) w) = active_connections w
    \<and> close_codes (sockets (run (map (Receive cid) fs) w) cid) = close_codes (sockets w cid)
    \<and> alive (sockets (run (map (Receive cid) fs) w) cid)"
  using assms
proof (induction fs arbitrary: w)
  case Nil
  then show ?case by (simp add: run_Nil)
next
  case (Cons f fs)
  from Cons.prems(2) have rest: "\<forall>f \<in> set fs. f = Inl JSONDecodeError \<or> counted f"
    by simp
  show ?case
  proof (cases "f = Inl JSONDecodeError")
    case True
    have a: "alive (sockets (snd (receive cid (Inl JSONDecodeError) w)) cid)"
      using Cons.prems(1) by (rule receive_invalid_fields)
    show ?thesis
      using Cons.IH [OF a rest] Cons.prems(1)
      by (simp add: True run_Cons receive_invalid_fields)
  next
    case False
    with Cons.prems(2) have c: "counted f" by simp
    have a: "alive (sockets (snd (receive cid f w)) cid)"
      using c Cons.prems(1) by (rule receive_counted_fields)
    show ?thesis
      using Cons.IH [OF a rest] Cons.prems(1) c False
      by (simp add: run_Cons receive_counted_fields)
  qed
qed

theorem receive_frames_witness:
  "alive (sockets one_open 1)
   \<and> counted (Inr (JDict [(''message'', JStr ''a'')]))
   \<and> counted (Inr (JDict [(''message'', JStr ''b'')]))
   \<and> outbox (sockets (run (map (Receive 1)
          [Inr (JDict [(''message'', JStr ''a'')]), Inl JSONDecodeError,
           Inr (JDict [(''message'', JStr ''b'')])]) one_open) 1) =
       [JDict [(''count'', JInt 1)], JDict [(''error'', JStr ''Invalid JSON'')],
        JDict [(''count'', JInt 2)]]
   \<and> message_count (consumers (run (map (Receive 1)
          [Inr (JDict [(''message'', JStr ''a'')]), Inl JSONDecodeError,
           Inr (JDict [(''message'', JStr ''b'')])]) one_open) 1) = 2"
proof -
  have h1: "alive (sockets one_open 1)" by (rule one_open_alive)
  have h2: "\<forall>f \<in> set [Inr (JDict [(''message'', JStr ''a'')]), Inl JSONDecodeError,
                     Inr (JDict [(''message'', JStr ''b'')])].
        f = Inl JSONDecodeError \<or> counted f" by simp
  show ?thesis
    using receive_frames [OF h1 h2] h1 h2 one_open_outbox one_open_count by simp
qed

subsection \<open>The steps of the handlers, field by field\<close>

lemma task_cancel_fields:
  "sockets (task_cancel tid w) = sockets w"
  "consumers (task_cancel tid w) = consumers w"
  "active_connections (task_cancel tid w) = active_connections w"
  "shutdown_initiated (task_cancel tid w) = shutdown_initiated w"
  "heartbeat_task (task_cancel tid w) = heartbeat_task w"
  "published (task_cancel tid w) = published w"
  "websocket_heartbeats (task_cancel tid w) = websocket_heartbeats w"
  "websocket_shutdown_duration (task_cancel tid w) = websocket_shutdown_duration w"
  "cache (task_cancel tid w) = cache w"
  "cache_writes (task_cancel tid w) = cache_writes w"
  "now (task_cancel tid w) = now w"
  by (simp_all add: task_cancel_def split: task_status.splits)

lemma send_fields:
  "fst (send cid frame w) = (if alive (sockets w cid) then None else Some SendError)"
  "sockets (snd (send cid frame w)) =
     (if alive (sockets w cid)
      then (sockets w)(cid := (sockets w cid)\<lparr>outbox := outbox (sockets w cid) @ [frame]\<rparr>)
      else sockets w)"
  "consumers (snd (send cid frame w)) = consumers w"
  "active_connections (snd (send cid frame w)) = active_connections w"
  "shutdown_initiated (snd (send cid frame w)) = shutdown_initiated w"
  "heartbeat_task (snd (send cid frame w)) = heartbeat_task w"
  "tasks (snd (send cid frame w)) = tasks w"
  "published (snd (send cid frame w)) = published w"
  "websocket_heartbeats (snd (send cid frame w)) = websocket_heartbeats w"
  "websocket_shutdown_duration (snd (send cid frame w)) = websocket_shutdown_duration w"
  "cache (snd (send cid frame w)) = cache w"
  "cache_writes (snd (send cid frame w)) = cache_writes w"
  "now (snd (send cid frame w)) = now w"
  by (simp_all add: send_def upd_socket_def)

lemma stop_heartbeat_fields:
  "sockets (stop_heartbeat cid w) = sockets w"
  "active_connections (stop_heartbeat cid w) = active_connections w"
  "shutdown_initiated (stop_heartbeat cid w) = shutdown_initiated w"
  "heartbeat_task (stop_heartbeat cid w) = heartbeat_task w"
  "published (stop_heartbeat cid w) = published w"
  "websocket_heartbeats (stop_heartbeat cid w) = websocket_heartbeats w"
  "cache (stop_heartbeat cid w) = cache w"
  "cache_writes (stop_heartbeat cid w) = cache_writes w"
  "now (stop_heartbeat cid w) = now w"
  "message_count (consumers (stop_heartbeat cid w) c) = message_count (consumers w c)"
  "session_id (consumers (stop_heartbeat cid w) c) = session_id (consumers w c)"
  "graceful_close (consumers (stop_heartbeat cid w) c) = graceful_close (consumers w c)"
  by (simp_all add: stop_heartbeat_def upd_consumer_def task_cancel_fields split: option.splits)

lemma send_goodbye_fields:
  "sockets (send_goodbye cid code w) =
     (if \<not> graceful_close (consumers w cid) \<and> code \<noteq> 1001 \<and> alive (sockets w cid)
      then (sockets w)(cid := (sockets w cid)\<lparr>outbox := outbox (sockets w cid) @
              [goodbye (message_count (consumers w cid))]\<rparr>)
      else sockets w)"
  "consumers (send_goodbye cid code w) = consumers w"
  "active_connections (send_goodbye cid code w) = active_connections w"
  "shutdown_initiated (send_goodbye cid code w) = shutdown_initiated w"
  "heartbeat_task (send_goodbye cid code w) = heartbeat_task w"
  "tasks (send_goodbye cid code w) = tasks w"
  "published (send_goodbye cid code w) = published w"
  "websocket_heartbeats (send_goodbye cid code w) = websocket_heartbeats w"
  "cache (send_goodbye cid code w) = cache w"
  "cache_writes (send_goodbye cid code w) = cache_writes w"
  "now (send_goodbye cid code w) = now w"
  by (simp_all add: send_goodbye_def send_fields)

lemma persist_session_fields:
  "sockets (persist_session cid w) = sockets w"
  "consumers (persist_session cid w) = consumers w"
  "active_connections (persist_session cid w) = active_connections w"
  "shutdown_initiated (persist_session cid w) = shutdown_initiated w"
  "heartbeat_task (persist_session cid w) = heartbeat_task w"
  "tasks (persist_session cid w) = tasks w"
  "published (persist_session cid w) = published w"
  "websocket_heartbeats (persist_session cid w) = websocket_heartbeats w"
  "now (persist_session cid w) = now w"
  "cache_writes (persist_session cid w) =
     cache_writes w @
       (if truthy (session_id (consumers w cid)) \<and> message_count (consumers w cid) > 0
        then [(''ws_session:'' @ the (session_id (consumers w cid)),
               message_count (consumers w cid), 300)]
        else [])"
  by (simp_all add: persist_session_def cache_session_def Let_def)

lemma before_persist_fields:
  "sockets (leave_group cid (track_duration cid (unregister cid w))) = sockets w"
  "consumers (leave_group cid (track_duration cid (unregister cid w))) = consumers w"
  "active_connections (leave_group cid (track_duration cid (unregister cid w))) =
     removeAll cid (active_connections w)"
  "shutdown_initiated (leave_group cid (track_duration cid (unregister cid w))) =
     shutdown_initiated w"
  "heartbeat_task (leave_group cid (track_duration cid (unregister cid w))) = heartbeat_task w"
  "tasks (leave_group cid (track_duration cid (unregister cid w))) = tasks w"
  "published (leave_group cid (track_duration cid (unregister cid w))) = published w"
  "websocket_heartbeats (leave_group cid (track_duration cid (unregister cid w))) =
     websocket_heartbeats w"
  "cache (leave_group cid (track_duration cid (unregister cid w))) = cache w"
  "cache_writes (leave_group cid (track_duration cid (unregister cid w))) = cache_writes w"
  "now (leave_group cid (track_duration cid (unregister cid w))) = now w"
  by (simp_all add: leave_group_def track_duration_def unregister_def)

lemma disconnect_eq:
  "disconnect cid code w =
     (None, stop_heartbeat cid (send_goodbye cid code (persist_session cid
        (leave_group cid (track_duration cid (unregister cid w))))))"
  by (simp add: disconnect_def disconnect_try_def)

lemma connect_shutdown:
  "shutdown_initiated w \<Longrightarrow> connect cid q u w = (None, close cid 1001 w)"
  by (simp add: connect_def connect_try_def)

lemma after_shutdown_flag: "shutdown_initiated after_shutdown"
  by (simp add: after_shutdown_def one_open_def handler_defs state_defs Let_def)

lemma after_shutdown_fields:
  "close_codes (sockets after_shutdown 2) = []"
  "active_connections after_shutdown = [1]"
  "session_id (consumers after_shutdown 2) = None"
  "cache_reads after_shutdown = []"
  "websocket_connections after_shutdown = 1"
  by (simp_all add: after_shutdown_def one_open_def handler_defs state_defs Let_def)

section \<open>Properties of connect and disconnect\<close>

text \<open>
  C3. A connect attempt made while the shutdown flag is set is closed with code 1001
  and nothing else happens: the handshake is not accepted, the consumer is not added
  to \<^verbatim>\<open>active_connections\<close> or to the broadcast group, the gauge of active connections
  keeps its value, no consumer gets a session identifier (the consumer objects are as
  they were), the cache is not read and no task is created.
\<close>

theorem connect_during_shutdown:
  assumes "shutdown_initiated w"
  shows "fst (connect cid q u w) = None
    \<and> close_codes (sockets (snd (connect cid q u w)) cid) = close_codes (sockets w cid) @ [1001]
    \<and> accepted (sockets (snd (connect cid q u w)) cid) = accepted (sockets w cid)
    \<and> active_connections (snd (connect cid q u w)) = active_connections w
    \<and> websocket_connections (snd (connect cid q u w)) = websocket_connections w
    \<and> consumers (snd (connect cid q u w)) = consumers w
    \<and> cache_reads (snd (connect cid q u w)) = cache_reads w
    \<and> broadcast_group (snd (connect cid q u w)) = broadcast_group w
    \<and> tasks (snd (connect cid q u w)) = tasks w"
  using assms by (simp add: connect_shutdown close_def upd_socket_def)

theorem connect_during_shutdown_witness:
  "shutdown_initiated after_shutdown
   \<and> close_codes (sockets (snd (connect 2 ''session_uuid=S1'' ''u2'' after_shutdown)) 2) = [1001]
   \<and> active_connections (snd (connect 2 ''session_uuid=S1'' ''u2'' after_shutdown)) = [1]
   \<and> websocket_connections (snd (connect 2 ''session_uuid=S1'' ''u2'' after_shutdown)) = 1
   \<and> session_id (consumers (snd (connect 2 ''session_uuid=S1'' ''u2'' after_shutdown)) 2) = None
   \<and> cache_reads (snd (connect 2 ''session_uuid=S1'' ''u2'' after_shutdown)) = []"
  using connect_during_shutdown [OF after_shutdown_flag, of 2 "''session_uuid=S1''" "''u2''"]
    after_shutdown_flag after_shutdown_fields
  by simp

text \<open>
  C9. \<^verbatim>\<open>disconnect\<close> never raises. When \<^verbatim>\<open>graceful_close\<close> is false and the close code
  is not 1001 it sends \<^verbatim>\<open>{"bye": true, "total": messageCount}\<close> with the connection's
  count, which it does not change; when the socket is gone that send raises, the
  exception is dropped and nothing is sent; when \<^verbatim>\<open>graceful_close\<close> is true or the code
  is 1001 nothing is sent.
\<close>

theorem disconnect_goodbye:
  "fst (disconnect cid code w) = None
   \<and> outbox (sockets (snd (disconnect cid code w)) cid) =
       outbox (sockets w cid) @
         (if \<not> graceful_close (consumers w cid) \<and> code \<noteq> 1001 \<and> alive (sockets w cid)
          then [JDict [(''bye'', JBool True), (''total'', JInt (message_count (consumers w cid)))]]
          else [])
   \<and> message_count (consumers (snd (disconnect cid code w)) cid) = message_count (consumers w cid)"
  by (simp add: disconnect_eq stop_heartbeat_fields send_goodbye_fields persist_session_fields
      before_persist_fields goodbye_def)

theorem disconnect_goodbye_witness:
  "outbox (sockets (snd (disconnect 1 1000 one_open)) 1) =
     [JDict [(''bye'', JBool True), (''total'', JInt 0)]]
   \<and> outbox (sockets (snd (disconnect 1 1001 one_open)) 1) = []
   \<and> fst (disconnect 1 1000 (step (SocketGone 1) one_open)) = None
   \<and> outbox (sockets (snd (disconnect 1 1000 (step (SocketGone 1) one_open))) 1) = []"
  using disconnect_goodbye [of 1 1000 one_open] disconnect_goodbye [of 1 1001 one_open]
    disconnect_goodbye [of 1 1000 "step (SocketGone 1) one_open"]
  by (simp add: one_open_def handler_defs state_defs Let_def)

subsection \<open>The query string and the session record\<close>

lemma split_from_absent:
  "sep \<noteq> [] \<Longrightarrow> \<not> py_in sep s \<Longrightarrow> split_from sep acc s = [rev acc @ s]"
  by (induction s arbitrary: acc) simp_all

lemma split_from_prefix:
  assumes "sep \<noteq> []"
  shows "split_from sep acc (sep @ s) = rev acc # split_from sep [] s"
proof -
  from assms obtain c cs where sep: "sep = c # cs" by (cases sep) auto
  have "split_from sep acc (c # (cs @ s)) = rev acc # split_from sep [] (drop (length sep) (c # (cs @ s)))"
    by (simp add: sep)
  then show ?thesis by (simp add: sep)
qed

lemma py_in_prefix: "sep \<noteq> [] \<Longrightarrow> py_in sep (sep @ s)"
  by (cases sep) simp_all

lemma py_split_prefix:
  assumes "sep \<noteq> []" and "\<not> py_in sep s"
  shows "py_split (sep @ s) sep = [[], s]"
  using assms by (simp add: py_split_def split_from_prefix split_from_absent)

lemma py_split_absent:
  assumes "sep \<noteq> []" and "\<not> py_in sep s"
  shows "py_split s sep = [s]"
  using assms by (simp add: py_split_def split_from_absent)

lemma recover_session_supplied:
  assumes "\<not> py_in ''&'' sid" and "\<not> py_in ''session_uuid='' sid"
  shows "recover_session cid (''session_uuid='' @ sid) u w =
     Inr (case session_record w sid of
            Some n \<Rightarrow> upd_consumer cid (\<lambda>c. c\<lparr>message_count := n\<rparr>)
                        ((upd_consumer cid (\<lambda>c. c\<lparr>session_id := Some sid\<rparr>) w)
                           \<lparr>cache_reads := cache_reads w @ [''ws_session:'' @ sid]\<rparr>)
          | None \<Rightarrow> (upd_consumer cid (\<lambda>c. c\<lparr>session_id := Some sid\<rparr>) w)
                           \<lparr>cache_reads := cache_reads w @ [''ws_session:'' @ sid]\<rparr>)"
proof -
  define sep where "sep = ''session_uuid=''"
  define amp where "amp = ''&''"
  have ne: "sep \<noteq> []" "amp \<noteq> []" by (simp_all add: sep_def amp_def)
  have a: "\<not> py_in amp sid" "\<not> py_in sep sid" using assms by (simp_all add: sep_def amp_def)
  have r: "recover_session cid (sep @ sid) u w =
     (if py_in sep (sep @ sid)
      then (case py_index (py_split (sep @ sid) sep) 1 of
              Inl e \<Rightarrow> Inl e
            | Inr rest \<Rightarrow>
                (case py_index (py_split rest amp) 0 of
                   Inl e \<Rightarrow> Inl e
                 | Inr sid \<Rightarrow>
                     (let w1 = upd_consumer cid (\<lambda>c. c\<lparr>session_id := Some sid\<rparr>) w
                      in case get_cached_session sid w1 of
                           (Some cached_count, w2) \<Rightarrow>
                             Inr (upd_consumer cid (\<lambda>c. c\<lparr>message_count := cached_count\<rparr>) w2)
                         | (None, w2) \<Rightarrow> Inr w2)))
      else Inr (upd_consumer cid (\<lambda>c. c\<lparr>session_id := Some u\<rparr>) w))"
    unfolding recover_session_def sep_def amp_def ..
  have "recover_session cid (sep @ sid) u w =
     Inr (case session_record w sid of
            Some n \<Rightarrow> upd_consumer cid (\<lambda>c. c\<lparr>message_count := n\<rparr>)
                        ((upd_consumer cid (\<lambda>c. c\<lparr>session_id := Some sid\<rparr>) w)
                           \<lparr>cache_reads := cache_reads w @ [''ws_session:'' @ sid]\<rparr>)
          | None \<Rightarrow> (upd_consumer cid (\<lambda>c. c\<lparr>session_id := Some sid\<rparr>) w)
                           \<lparr>cache_reads := cache_reads w @ [''ws_session:'' @ sid]\<rparr>)"
    unfolding r
    by (simp add: py_in_prefix [OF ne(1)] py_split_prefix [OF ne(1) a(2)]
        py_split_absent [OF ne(2) a(1)] py_index_def session_record_def
        get_cached_session_def upd_consumer_def Let_def split: option.splits)
  then show ?thesis by (simp add: sep_def)
qed


lemma register_fields:
  "consumers (register cid w) = consumers w"
  "shutdown_initiated (register cid w) = shutdown_initiated w"
  "published (register cid w) = published w"
  "websocket_heartbeats (register cid w) = websocket_heartbeats w"
  "cache (register cid w) = cache w"
  "now (register cid w) = now w"
  by (simp_all add: register_def upd_socket_def)

lemma start_heartbeat_fields:
  "message_count (consumers (start_heartbeat cid w) c) = message_count (consumers w c)"
  "session_id (consumers (start_heartbeat cid w) c) = session_id (consumers w c)"
  "shutdown_initiated (start_heartbeat cid w) = shutdown_initiated w"
  "published (start_heartbeat cid w) = published w"
  "websocket_heartbeats (start_heartbeat cid w) = websocket_heartbeats w"
  by (simp_all add: start_heartbeat_def create_task_def upd_consumer_def)

lemma session_record_cong:
  "cache w' = cache w \<Longrightarrow> now w' = now w \<Longrightarrow> session_record w' sid = session_record w sid"
  by (simp add: session_record_def get_cached_session_def Let_def split: option.splits)

lemma connect_open:
  assumes "\<not> shutdown_initiated w"
    and "recover_session cid q u (upd_consumer cid (\<lambda>c. c\<lparr>connection_start := now w\<rparr>) w) = Inr w2"
  shows "connect cid q u w = (None, start_heartbeat cid (register cid w2))"
  using assms by (simp add: connect_def connect_try_def Let_def)

lemma connect_seeds:
  assumes "\<not> shutdown_initiated w"
    and "\<not> py_in ''&'' sid" and "\<not> py_in ''session_uuid='' sid"
  shows "message_count (consumers (snd (connect cid (''session_uuid='' @ sid) u w)) cid) =
           (case session_record w sid of Some n \<Rightarrow> n | None \<Rightarrow> message_count (consumers w cid))"
proof -
  let ?w1 = "upd_consumer cid (\<lambda>c. c\<lparr>connection_start := now w\<rparr>) w"
  have s: "session_record ?w1 sid = session_record w sid"
    by (rule session_record_cong) (simp_all add: upd_consumer_def)
  note r = recover_session_supplied [OF assms(2,3), of cid u ?w1]
  show ?thesis
    apply (subst connect_open [OF assms(1) r])
    apply (simp add: s start_heartbeat_fields register_fields split: option.splits)
    apply (simp add: upd_consumer_def)
    done
qed

lemma persist_session_cache:
  "cache (persist_session cid w) =
     (if truthy (session_id (consumers w cid)) \<and> message_count (consumers w cid) > 0
      then (cache w)(''ws_session:'' @ the (session_id (consumers w cid)) :=
              Some (message_count (consumers w cid), now w + 300))
      else cache w)"
  by (simp add: persist_session_def cache_session_def Let_def)

lemma session_record_after_disconnect:
  assumes "session_id (consumers w cid) = Some sid" and "sid \<noteq> []"
    and "0 < message_count (consumers w cid)" and "0 \<le> d"
  shows "session_record (step (Tick d) (snd (disconnect cid code w))) sid =
           (if d < 300 then Some (message_count (consumers w cid)) else None)"
  using assms
  by (simp add: session_record_def get_cached_session_def disconnect_eq stop_heartbeat_fields
      send_goodbye_fields persist_session_cache persist_session_fields before_persist_fields
      truthy_def)

lemma three_sent_fields:
  "consumers three_sent 2 = new_consumer"
  "\<not> shutdown_initiated three_sent"
  "session_id (consumers three_sent 1) = Some ''S1''"
  "message_count (consumers three_sent 1) = 3"
  "cache_writes three_sent = []"
  by (simp_all add: three_sent_def handler_defs state_defs Let_def)

section \<open>Session records\<close>

text \<open>
  C2, as the claim states it, fails: a client that connects with the query string
  \<^verbatim>\<open>session_uuid=\<close> gets the empty session identifier, and when it disconnects after one
  message, with a count above zero, no record is written.
\<close>

theorem empty_session_counterexample:
  "0 < message_count (consumers empty_session 1)
   \<and> cache_writes (snd (disconnect 1 1000 empty_session)) = cache_writes empty_session
   \<and> cache_writes empty_session = []"
  by (simp add: empty_session_def handler_defs state_defs Let_def)


text \<open>
  C2, amended. At disconnect a record (\<^verbatim>\<open>ws_session:\<close> and the session identifier, the
  message count, timeout 300 seconds) is written if and only if the session identifier
  is not empty and the message count is above zero. A new connection whose query string
  is \<^verbatim>\<open>session_uuid=\<close> followed by an identifier (free of \<^verbatim>\<open>&\<close> and of
  \<^verbatim>\<open>session_uuid=\<close>) starts at the count of that identifier's unexpired record, and at 0
  when there is none. So a connection that arrives \<open>d\<close> seconds after the disconnect
  that wrote the record starts at the recorded count when \<open>d < 300\<close> and at 0 otherwise.
\<close>

theorem session_written_and_recovered:
  assumes "consumers w cid' = new_consumer" and "cid' \<noteq> cid"
    and "\<not> shutdown_initiated w"
    and "\<not> py_in ''&'' sid" and "\<not> py_in ''session_uuid='' sid"
    and "0 \<le> d"
  shows "cache_writes (snd (disconnect cid code w)) =
           cache_writes w @
             (if truthy (session_id (consumers w cid)) \<and> 0 < message_count (consumers w cid)
              then [(''ws_session:'' @ the (session_id (consumers w cid)),
                     message_count (consumers w cid), 300)]
              else [])
    \<and> message_count (consumers (snd (connect cid' (''session_uuid='' @ sid) u w)) cid') =
           (case session_record w sid of Some n \<Rightarrow> n | None \<Rightarrow> 0)
    \<and> (session_id (consumers w cid) = Some sid \<and> sid \<noteq> []
          \<and> 0 < message_count (consumers w cid) \<longrightarrow>
        message_count (consumers
          (run [Disconnect cid code, Tick d, Connect cid' (''session_uuid='' @ sid) u] w) cid') =
           (if d < 300 then message_count (consumers w cid) else 0))"
proof (intro conjI impI)
  show "cache_writes (snd (disconnect cid code w)) =
           cache_writes w @
             (if truthy (session_id (consumers w cid)) \<and> 0 < message_count (consumers w cid)
              then [(''ws_session:'' @ the (session_id (consumers w cid)),
                     message_count (consumers w cid), 300)]
              else [])"
    by (simp add: disconnect_eq stop_heartbeat_fields send_goodbye_fields
        persist_session_fields before_persist_fields)
next
  show "message_count (consumers (snd (connect cid' (''session_uuid='' @ sid) u w)) cid') =
           (case session_record w sid of Some n \<Rightarrow> n | None \<Rightarrow> 0)"
    using connect_seeds [OF assms(3,4,5), of cid' u] assms(1)
    by (simp add: new_consumer_def split: option.splits)
next
  assume a: "session_id (consumers w cid) = Some sid \<and> sid \<noteq> []
          \<and> 0 < message_count (consumers w cid)"
  let ?w' = "step (Tick d) (snd (disconnect cid code w))"
  have flag: "\<not> shutdown_initiated ?w'"
    using assms(3)
    by (simp add: disconnect_eq stop_heartbeat_fields send_goodbye_fields
        persist_session_fields before_persist_fields)
  have fresh: "message_count (consumers ?w' cid') = 0"
    using assms(1)
    by (simp add: disconnect_eq stop_heartbeat_fields send_goodbye_fields
        persist_session_fields before_persist_fields new_consumer_def)
  have rec: "session_record ?w' sid =
           (if d < 300 then Some (message_count (consumers w cid)) else None)"
    using a assms(6) by (intro session_record_after_disconnect) simp_all
  have "run [Disconnect cid code, Tick d, Connect cid' (''session_uuid='' @ sid) u] w =
          snd (connect cid' (''session_uuid='' @ sid) u ?w')"
    by (simp add: run_Cons run_Nil)
  then show "message_count (consumers
          (run [Disconnect cid code, Tick d, Connect cid' (''session_uuid='' @ sid) u] w) cid') =
           (if d < 300 then message_count (consumers w cid) else 0)"
    using connect_seeds [OF flag assms(4,5), of cid' u] fresh rec
    by (simp split: option.splits if_splits)
qed

theorem session_written_and_recovered_witness:
  "message_count (consumers three_sent 1) = 3
   \<and> cache_writes (snd (disconnect 1 1000 three_sent)) = [(''ws_session:S1'', 3, 300)]
   \<and> message_count (consumers
        (run [Disconnect 1 1000, Tick 10, Connect 2 ''session_uuid=S1'' ''u2''] three_sent) 2) = 3
   \<and> message_count (consumers
        (run [Disconnect 1 1000, Tick 300, Connect 2 ''session_uuid=S1'' ''u2''] three_sent) 2) = 0"
proof -
  have h1: "consumers three_sent 2 = new_consumer" by (rule three_sent_fields)
  have h2: "(2::nat) \<noteq> 1" by simp
  have h3: "\<not> shutdown_initiated three_sent" by (rule three_sent_fields)
  have h4: "\<not> py_in ''&'' ''S1''" by simp
  have h5: "\<not> py_in ''session_uuid='' ''S1''" by simp
  have h6: "(0::real) \<le> 10" "(0::real) \<le> 300" by simp_all
  show ?thesis
    using session_written_and_recovered [OF h1 h2 h3 h4 h5 h6(1), of 1000 "''u2''"]
      session_written_and_recovered [OF h1 h2 h3 h4 h5 h6(2), of 1000 "''u2''"]
      three_sent_fields(3,4,5)
    by (simp add: truthy_def)
qed

subsection \<open>The steps of graceful_shutdown, field by field\<close>

lemma say_goodbye_fields:
  "sockets (say_goodbye x w) =
     (if alive (sockets w x)
      then (sockets w)(x := (sockets w x)\<lparr>outbox := outbox (sockets w x) @
              [goodbye (message_count (consumers w x))]\<rparr>)
      else sockets w)"
  "consumers (say_goodbye x w) = (consumers w)(x := (consumers w x)\<lparr>graceful_close := True\<rparr>)"
  "active_connections (say_goodbye x w) = active_connections w"
  "shutdown_initiated (say_goodbye x w) = shutdown_initiated w"
  "heartbeat_task (say_goodbye x w) = heartbeat_task w"
  "tasks (say_goodbye x w) = tasks w"
  "published (say_goodbye x w) = published w"
  "websocket_heartbeats (say_goodbye x w) = websocket_heartbeats w"
  "websocket_shutdown_duration (say_goodbye x w) = websocket_shutdown_duration w"
  "now (say_goodbye x w) = now w"
  by (simp_all add: say_goodbye_def Let_def send_fields upd_consumer_def)

lemma close_fields:
  "sockets (close x code w) =
     (sockets w)(x := (sockets w x)\<lparr>close_codes := close_codes (sockets w x) @ [code]\<rparr>)"
  "consumers (close x code w) = consumers w"
  "active_connections (close x code w) = active_connections w"
  "shutdown_initiated (close x code w) = shutdown_initiated w"
  "heartbeat_task (close x code w) = heartbeat_task w"
  "tasks (close x code w) = tasks w"
  "published (close x code w) = published w"
  "websocket_heartbeats (close x code w) = websocket_heartbeats w"
  "websocket_shutdown_duration (close x code w) = websocket_shutdown_duration w"
  "now (close x code w) = now w"
  by (simp_all add: close_def upd_socket_def)

lemma fold_say_goodbye_fields:
  "active_connections (fold say_goodbye xs w) = active_connections w"
  "shutdown_initiated (fold say_goodbye xs w) = shutdown_initiated w"
  "heartbeat_task (fold say_goodbye xs w) = heartbeat_task w"
  "tasks (fold say_goodbye xs w) = tasks w"
  "published (fold say_goodbye xs w) = published w"
  "websocket_heartbeats (fold say_goodbye xs w) = websocket_heartbeats w"
  "websocket_shutdown_duration (fold say_goodbye xs w) = websocket_shutdown_duration w"
  "now (fold say_goodbye xs w) = now w"
  by (induction xs arbitrary: w; simp add: say_goodbye_fields)+

lemma fold_close_fields:
  "consumers (fold (\<lambda>x. close x code) xs w) = consumers w"
  "active_connections (fold (\<lambda>x. close x code) xs w) = active_connections w"
  "shutdown_initiated (fold (\<lambda>x. close x code) xs w) = shutdown_initiated w"
  "heartbeat_task (fold (\<lambda>x. close x code) xs w) = heartbeat_task w"
  "tasks (fold (\<lambda>x. close x code) xs w) = tasks w"
  "published (fold (\<lambda>x. close x code) xs w) = published w"
  "websocket_heartbeats (fold (\<lambda>x. close x code) xs w) = websocket_heartbeats w"
  "websocket_shutdown_duration (fold (\<lambda>x. close x code) xs w) = websocket_shutdown_duration w"
  "now (fold (\<lambda>x. close x code) xs w) = now w"
  by (induction xs arbitrary: w; simp add: close_fields)+

lemma fold_say_goodbye_socket:
  "distinct xs \<Longrightarrow>
   sockets (fold say_goodbye xs w) cid =
     (if cid \<in> set xs \<and> alive (sockets w cid)
      then (sockets w cid)\<lparr>outbox := outbox (sockets w cid) @
              [goodbye (message_count (consumers w cid))]\<rparr>
      else sockets w cid)"
  by (induction xs arbitrary: w) (auto simp add: say_goodbye_fields)

lemma fold_say_goodbye_consumer:
  "consumers (fold say_goodbye xs w) cid =
     (if cid \<in> set xs then (consumers w cid)\<lparr>graceful_close := True\<rparr> else consumers w cid)"
  by (induction xs arbitrary: w) (auto simp add: say_goodbye_fields)

lemma fold_close_socket:
  "distinct xs \<Longrightarrow>
   sockets (fold (\<lambda>x. close x code) xs w) cid =
     (if cid \<in> set xs
      then (sockets w cid)\<lparr>close_codes := close_codes (sockets w cid) @ [code]\<rparr>
      else sockets w cid)"
  by (induction xs arbitrary: w) (auto simp add: close_fields)

lemma graceful_shutdown_eq:
  "graceful_shutdown g w =
     (if active_connections w \<noteq> [] \<and> timed_out g
      then (Some TimeoutError, (before_wait w)\<lparr>now := now w + 9\<rparr>)
      else (None, (before_wait w)
              \<lparr>now := now w + (if active_connections w = [] then 0 else the g),
               websocket_shutdown_duration := websocket_shutdown_duration w @
                 [if active_connections w = [] then 0 else the g]\<rparr>))"
  by (cases "heartbeat_task w"; cases g)
     (simp_all add: graceful_shutdown_def before_wait_def timed_out_def wait_for_def Let_def
        task_cancel_fields fold_say_goodbye_fields fold_close_fields)

lemma before_wait_fields:
  "active_connections (before_wait w) = active_connections w"
  "shutdown_initiated (before_wait w)"
  "heartbeat_task (before_wait w) = heartbeat_task w"
  "published (before_wait w) = published w"
  "websocket_heartbeats (before_wait w) = websocket_heartbeats w"
  "websocket_shutdown_duration (before_wait w) = websocket_shutdown_duration w"
  "now (before_wait w) = now w"
  by (cases "heartbeat_task w";
      simp add: before_wait_def Let_def task_cancel_fields fold_say_goodbye_fields
        fold_close_fields)+

lemma before_wait_socket:
  assumes "distinct (active_connections w)"
  shows "sockets (before_wait w) cid =
     (if cid \<in> set (active_connections w)
      then (sockets w cid)
             \<lparr>outbox := outbox (sockets w cid) @
                (if alive (sockets w cid) then [goodbye (message_count (consumers w cid))] else []),
              close_codes := close_codes (sockets w cid) @ [1001]\<rparr>
      else sockets w cid)"
  using assms
  by (cases "heartbeat_task w")
     (auto simp add: before_wait_def Let_def task_cancel_fields fold_say_goodbye_fields
        fold_close_fields fold_say_goodbye_socket fold_close_socket)

lemma before_wait_consumer:
  "consumers (before_wait w) cid =
     (if cid \<in> set (active_connections w)
      then (consumers w cid)\<lparr>graceful_close := True\<rparr>
      else consumers w cid)"
  by (cases "heartbeat_task w")
     (auto simp add: before_wait_def Let_def task_cancel_fields fold_say_goodbye_fields
        fold_close_fields fold_say_goodbye_consumer)

lemma graceful_shutdown_fields:
  "active_connections (snd (graceful_shutdown g w)) = active_connections w"
  "shutdown_initiated (snd (graceful_shutdown g w))"
  "heartbeat_task (snd (graceful_shutdown g w)) = heartbeat_task w"
  "published (snd (graceful_shutdown g w)) = published w"
  "websocket_heartbeats (snd (graceful_shutdown g w)) = websocket_heartbeats w"
  "sockets (snd (graceful_shutdown g w)) = sockets (before_wait w)"
  "consumers (snd (graceful_shutdown g w)) = consumers (before_wait w)"
  by (simp_all add: graceful_shutdown_eq before_wait_fields)

section \<open>Properties of graceful_shutdown\<close>

text \<open>
  C7, as the claim states it, fails: with connection 1 open and closes that need ten
  seconds, the wait ends after nine seconds with \<^verbatim>\<open>TimeoutError\<close>, which leaves
  \<^verbatim>\<open>graceful_shutdown\<close>, and no shutdown duration is recorded.
\<close>

theorem shutdown_timeout_counterexample:
  "fst (graceful_shutdown (Some 10) one_open) = Some TimeoutError
   \<and> websocket_shutdown_duration (snd (graceful_shutdown (Some 10) one_open)) = []
   \<and> now (snd (graceful_shutdown (Some 10) one_open)) - now one_open = 9"
  by (simp add: one_open_def handler_defs state_defs Let_def)

text \<open>
  C7, amended. \<^verbatim>\<open>graceful_shutdown\<close> sets the shutdown flag and waits for the requested
  closes for at most nine seconds. When no connection is registered, or the closes are
  done within the nine seconds, it returns and records the elapsed time as the shutdown
  duration. When the nine seconds pass first, \<^verbatim>\<open>TimeoutError\<close> is not caught: it leaves
  \<^verbatim>\<open>graceful_shutdown\<close>, and the statements after the wait, which record the shutdown
  duration and log the completion, are not reached.
\<close>

theorem shutdown_wait_bounded:
  "fst (graceful_shutdown g w) =
     (if active_connections w \<noteq> [] \<and> timed_out g then Some TimeoutError else None)
   \<and> websocket_shutdown_duration (snd (graceful_shutdown g w)) =
       websocket_shutdown_duration w @
         (if active_connections w \<noteq> [] \<and> timed_out g then []
          else [now (snd (graceful_shutdown g w)) - now w])
   \<and> now (snd (graceful_shutdown g w)) - now w \<le> 9
   \<and> shutdown_initiated (snd (graceful_shutdown g w))"
  by (cases g) (simp_all add: graceful_shutdown_eq before_wait_fields timed_out_def)

theorem shutdown_wait_bounded_witness:
  "fst (graceful_shutdown (Some 2) one_open) = None
   \<and> websocket_shutdown_duration (snd (graceful_shutdown (Some 2) one_open)) = [2]
   \<and> fst (graceful_shutdown None one_open) = Some TimeoutError
   \<and> websocket_shutdown_duration (snd (graceful_shutdown None one_open)) = []
   \<and> now (snd (graceful_shutdown None one_open)) - now one_open = 9"
  using shutdown_wait_bounded [of "Some 2" one_open] shutdown_wait_bounded [of None one_open]
  by (simp add: one_open_def handler_defs state_defs Let_def)

text \<open>
  C8, as the claim states it, fails: \<^verbatim>\<open>graceful_shutdown\<close>, called again after a shutdown
  that found connection 1 open and before that connection's \<^verbatim>\<open>disconnect\<close> has run,
  requests the close of connection 1 with code 1001 a second time and records a second
  shutdown duration.
\<close>

theorem shutdown_twice_counterexample:
  "shutdown_initiated after_shutdown
   \<and> active_connections after_shutdown = [1]
   \<and> close_codes (sockets after_shutdown 1) = [1001]
   \<and> close_codes (sockets (snd (graceful_shutdown (Some 1) after_shutdown)) 1) = [1001, 1001]
   \<and> websocket_shutdown_duration after_shutdown = [1]
   \<and> websocket_shutdown_duration (snd (graceful_shutdown (Some 1) after_shutdown)) = [1, 1]"
  by (simp add: after_shutdown_def one_open_def handler_defs state_defs Let_def)

text \<open>
  C8, amended. \<^verbatim>\<open>graceful_shutdown\<close> has no guard against being entered again. Called
  twice, with the registry unchanged in between, it requests the close with code 1001
  twice for every registered connection, sends each of them that can still take frames
  the goodbye with its count twice, and, when neither wait times out or no connection
  is registered, records the shutdown duration twice. Only when no connection is
  registered does the second call leave the sockets and the consumers as they are.
\<close>

theorem shutdown_twice:
  "(distinct (active_connections w) \<and> cid \<in> set (active_connections w) \<longrightarrow>
      close_codes (sockets (snd (graceful_shutdown g2 (snd (graceful_shutdown g1 w)))) cid) =
        close_codes (sockets w cid) @ [1001, 1001]
    \<and> outbox (sockets (snd (graceful_shutdown g2 (snd (graceful_shutdown g1 w)))) cid) =
        outbox (sockets w cid) @
          (if alive (sockets w cid)
           then [JDict [(''bye'', JBool True), (''total'', JInt (message_count (consumers w cid)))],
                 JDict [(''bye'', JBool True), (''total'', JInt (message_count (consumers w cid)))]]
           else []))
   \<and> (active_connections w = [] \<or> (\<not> timed_out g1 \<and> \<not> timed_out g2) \<longrightarrow>
      length (websocket_shutdown_duration (snd (graceful_shutdown g2 (snd (graceful_shutdown g1 w))))) =
        length (websocket_shutdown_duration w) + 2)
   \<and> (active_connections w = [] \<longrightarrow>
      sockets (snd (graceful_shutdown g2 (snd (graceful_shutdown g1 w)))) = sockets w
    \<and> consumers (snd (graceful_shutdown g2 (snd (graceful_shutdown g1 w)))) = consumers w)"
proof (intro conjI impI)
  let ?w1 = "snd (graceful_shutdown g1 w)"
  let ?w2 = "snd (graceful_shutdown g2 ?w1)"
  {
    assume a: "distinct (active_connections w) \<and> cid \<in> set (active_connections w)"
    then have d1: "distinct (active_connections ?w1)" and m1: "cid \<in> set (active_connections ?w1)"
      by (simp_all add: graceful_shutdown_fields)
    have s1: "sockets ?w1 cid = (sockets w cid)
             \<lparr>outbox := outbox (sockets w cid) @
                (if alive (sockets w cid) then [goodbye (message_count (consumers w cid))] else []),
              close_codes := close_codes (sockets w cid) @ [1001]\<rparr>"
      using a by (simp add: graceful_shutdown_fields before_wait_socket)
    have c1: "message_count (consumers ?w1 cid) = message_count (consumers w cid)"
      by (simp add: graceful_shutdown_fields before_wait_consumer)
    have s2: "sockets ?w2 cid = (sockets ?w1 cid)
             \<lparr>outbox := outbox (sockets ?w1 cid) @
                (if alive (sockets ?w1 cid) then [goodbye (message_count (consumers ?w1 cid))] else []),
              close_codes := close_codes (sockets ?w1 cid) @ [1001]\<rparr>"
      using d1 m1 by (simp add: graceful_shutdown_fields(6) [of g2] before_wait_socket)
    show "close_codes (sockets ?w2 cid) = close_codes (sockets w cid) @ [1001, 1001]"
      by (simp add: s2 s1)
    show "outbox (sockets ?w2 cid) =
        outbox (sockets w cid) @
          (if alive (sockets w cid)
           then [JDict [(''bye'', JBool True), (''total'', JInt (message_count (consumers w cid)))],
                 JDict [(''bye'', JBool True), (''total'', JInt (message_count (consumers w cid)))]]
           else [])"
      by (simp add: s2 c1) (simp add: s1 goodbye_def)
  }
  {
    assume "active_connections w = [] \<or> (\<not> timed_out g1 \<and> \<not> timed_out g2)"
    then show "length (websocket_shutdown_duration ?w2) = length (websocket_shutdown_duration w) + 2"
      by (auto simp add: graceful_shutdown_eq before_wait_fields)
  }
  {
    assume e: "active_connections w = []"
    then have e1: "active_connections ?w1 = []" by (simp add: graceful_shutdown_fields)
    have d: "distinct (active_connections w)" "distinct (active_connections ?w1)"
      using e e1 by simp_all
    show "sockets ?w2 = sockets w"
      using e e1 d
      by (simp add: graceful_shutdown_fields(6) [of g2] graceful_shutdown_fields(6) [of g1]
          before_wait_socket fun_eq_iff)
    show "consumers ?w2 = consumers w"
      using e e1
      by (simp add: graceful_shutdown_fields(7) [of g2] graceful_shutdown_fields(7) [of g1]
          before_wait_consumer fun_eq_iff)
  }
qed

theorem shutdown_twice_witness:
  "distinct (active_connections one_open) \<and> 1 \<in> set (active_connections one_open)
   \<and> alive (sockets one_open 1)
   \<and> close_codes (sockets
        (snd (graceful_shutdown (Some 2) (snd (graceful_shutdown (Some 1) one_open)))) 1) =
       [1001, 1001]
   \<and> outbox (sockets
        (snd (graceful_shutdown (Some 2) (snd (graceful_shutdown (Some 1) one_open)))) 1) =
       [JDict [(''bye'', JBool True), (''total'', JInt 0)],
        JDict [(''bye'', JBool True), (''total'', JInt 0)]]
   \<and> length (websocket_shutdown_duration
        (snd (graceful_shutdown (Some 2) (snd (graceful_shutdown (Some 1) one_open))))) = 2"
proof -
  have h: "distinct (active_connections one_open)" "1 \<in> set (active_connections one_open)"
    "alive (sockets one_open 1)" "\<not> timed_out (Some 1)" "\<not> timed_out (Some 2)"
    "websocket_shutdown_duration one_open = []"
    by (simp_all add: one_open_def timed_out_def handler_defs state_defs Let_def)
  show ?thesis
    using shutdown_twice [of one_open 1 "Some 2" "Some 1"] h one_open_outbox one_open_closes
      one_open_count
    by simp
qed

subsection \<open>What every event preserves\<close>

lemma recover_session_fields:
  assumes "recover_session cid q u w = Inr w2"
  shows "shutdown_initiated w2 = shutdown_initiated w"
    and "published w2 = published w"
    and "websocket_heartbeats w2 = websocket_heartbeats w"
    and "active_connections w2 = active_connections w"
  using assms
  by (auto simp add: recover_session_def get_cached_session_def upd_consumer_def Let_def
      split: if_splits sum.splits option.splits prod.splits)

lemma connect_fields:
  "shutdown_initiated (snd (connect cid q u w)) = shutdown_initiated w"
  "published (snd (connect cid q u w)) = published w"
  "websocket_heartbeats (snd (connect cid q u w)) = websocket_heartbeats w"
proof -
  let ?w1 = "upd_consumer cid (\<lambda>c. c\<lparr>connection_start := now w\<rparr>) w"
  have w1: "shutdown_initiated ?w1 = shutdown_initiated w" "published ?w1 = published w"
    "websocket_heartbeats ?w1 = websocket_heartbeats w"
    by (simp_all add: upd_consumer_def)
  show "shutdown_initiated (snd (connect cid q u w)) = shutdown_initiated w"
    "published (snd (connect cid q u w)) = published w"
    "websocket_heartbeats (snd (connect cid q u w)) = websocket_heartbeats w"
    using w1
    by (cases "recover_session cid q u ?w1";
        simp add: connect_def connect_try_def Let_def close_fields errors_inc_def
          start_heartbeat_fields register_fields recover_session_fields)+
qed

lemma receive_try_fields:
  "shutdown_initiated (snd (receive_try cid f w)) = shutdown_initiated w"
  "published (snd (receive_try cid f w)) = published w"
  "websocket_heartbeats (snd (receive_try cid f w)) = websocket_heartbeats w"
  "active_connections (snd (receive_try cid f w)) = active_connections w"
  by (simp_all add: receive_try_def Let_def send_def upd_consumer_def upd_socket_def
      split: sum.splits)

lemma receive_fields:
  "shutdown_initiated (snd (receive cid f w)) = shutdown_initiated w"
  "published (snd (receive cid f w)) = published w"
  "websocket_heartbeats (snd (receive cid f w)) = websocket_heartbeats w"
  "active_connections (snd (receive cid f w)) = active_connections w"
  using receive_try_fields [of cid f w]
  by (cases "receive_try cid f w";
      simp add: receive_def send_fields errors_inc_def split: option.splits exn.splits)+

lemma disconnect_fields:
  "shutdown_initiated (snd (disconnect cid code w)) = shutdown_initiated w"
  "published (snd (disconnect cid code w)) = published w"
  "websocket_heartbeats (snd (disconnect cid code w)) = websocket_heartbeats w"
  "active_connections (snd (disconnect cid code w)) = removeAll cid (active_connections w)"
  by (simp_all add: disconnect_eq stop_heartbeat_fields send_goodbye_fields
      persist_session_fields before_persist_fields)

lemma heartbeat_loop_shutdown:
  assumes "shutdown_initiated w"
  shows "shutdown_initiated (heartbeat_loop tid ts w)"
    and "published (heartbeat_loop tid ts w) = published w"
    and "websocket_heartbeats (heartbeat_loop tid ts w) = websocket_heartbeats w"
  using assms by (simp_all add: heartbeat_loop_def split: task_status.splits)

lemma step_shutdown:
  assumes "shutdown_initiated w"
  shows "shutdown_initiated (step e w)
    \<and> published (step e w) = published w
    \<and> websocket_heartbeats (step e w) = websocket_heartbeats w"
  using assms
  by (cases e)
     (simp_all add: connect_fields receive_fields disconnect_fields heartbeat_loop_shutdown
        graceful_shutdown_fields upd_socket_def)

lemma run_shutdown:
  assumes "shutdown_initiated w"
  shows "shutdown_initiated (run es w)
    \<and> published (run es w) = published w
    \<and> websocket_heartbeats (run es w) = websocket_heartbeats w"
  using assms
proof (induction es arbitrary: w)
  case Nil
  then show ?case by (simp add: run_Nil)
next
  case (Cons e es)
  from step_shutdown [OF Cons.prems, of e] Cons.IH [of "step e w"]
  show ?case by (simp add: run_Cons)
qed

lemma task_cancel_sleeping:
  assumes "tid < length (tasks w)" and "tasks w ! tid = Sleeping t"
  shows "tasks (task_cancel tid w) ! tid = Finished"
    and "heartbeat_loop tid ts (task_cancel tid w) = task_cancel tid w"
  using assms by (simp_all add: task_cancel_def heartbeat_loop_def)

lemma start_heartbeat_active:
  "active_connections (start_heartbeat cid w) = active_connections w"
  by (simp add: start_heartbeat_def create_task_def upd_consumer_def)

lemma connect_distinct:
  assumes "distinct (active_connections w)"
  shows "distinct (active_connections (snd (connect cid q u w)))"
proof -
  let ?w1 = "upd_consumer cid (\<lambda>c. c\<lparr>connection_start := now w\<rparr>) w"
  have w1: "active_connections ?w1 = active_connections w"
    by (simp add: upd_consumer_def)
  show ?thesis
    using assms w1
    by (cases "recover_session cid q u ?w1")
       (simp_all add: connect_def connect_try_def Let_def close_fields errors_inc_def
          start_heartbeat_active register_def upd_socket_def recover_session_fields)
qed

lemma heartbeat_loop_active:
  "active_connections (heartbeat_loop tid ts w) = active_connections w"
  by (simp add: heartbeat_loop_def Let_def split: task_status.splits)

lemma step_distinct:
  assumes "distinct (active_connections w)"
  shows "distinct (active_connections (step e w))"
  using assms
  by (cases e)
     (simp_all add: connect_distinct receive_fields disconnect_fields heartbeat_loop_active
        graceful_shutdown_fields upd_socket_def distinct_removeAll)

lemma run_distinct:
  assumes "distinct (active_connections w)"
  shows "distinct (active_connections (run es w))"
  using assms
  by (induction es arbitrary: w) (simp_all add: run_Nil run_Cons step_distinct)

lemma reachable_distinct: "distinct (active_connections (run es init_world))"
  by (rule run_distinct) (simp add: init_world_def)

lemma task_cancel_finished:
  assumes "tid < length (tasks w)" and "tasks w ! tid = Finished"
  shows "tid < length (tasks (task_cancel tid' w)) \<and> tasks (task_cancel tid' w) ! tid = Finished"
  using assms
  by (cases "tid' = tid") (simp_all add: task_cancel_def split: task_status.splits)

lemma heartbeat_loop_finished:
  assumes "tid < length (tasks w)" and "tasks w ! tid = Finished"
  shows "tid < length (tasks (heartbeat_loop tid' ts w))
    \<and> tasks (heartbeat_loop tid' ts w) ! tid = Finished"
  using assms
  by (cases "tid' = tid") (simp_all add: heartbeat_loop_def Let_def split: task_status.splits)

lemma recover_session_tasks:
  "recover_session cid q u w = Inr w2 \<Longrightarrow> tasks w2 = tasks w"
  by (auto simp add: recover_session_def get_cached_session_def upd_consumer_def Let_def
      split: if_splits sum.splits option.splits prod.splits)

lemma connect_finished:
  assumes "tid < length (tasks w)" and "tasks w ! tid = Finished"
  shows "tid < length (tasks (snd (connect cid q u w)))
    \<and> tasks (snd (connect cid q u w)) ! tid = Finished"
proof -
  let ?w1 = "upd_consumer cid (\<lambda>c. c\<lparr>connection_start := now w\<rparr>) w"
  have w1: "tasks ?w1 = tasks w" by (simp add: upd_consumer_def)
  show ?thesis
    using assms w1
    by (cases "recover_session cid q u ?w1")
       (auto simp add: connect_def connect_try_def Let_def close_def errors_inc_def
          start_heartbeat_def create_task_def register_def upd_socket_def upd_consumer_def
          nth_append dest: recover_session_tasks)
qed

lemma receive_tasks: "tasks (snd (receive cid f w)) = tasks w"
proof -
  have t: "tasks (snd (receive_try cid f w)) = tasks w"
    by (simp add: receive_try_def Let_def send_def upd_consumer_def upd_socket_def
        split: sum.splits)
  show ?thesis
    using t
    by (cases "receive_try cid f w")
       (simp add: receive_def send_fields errors_inc_def split: option.splits exn.splits)
qed

lemma disconnect_finished:
  assumes "tid < length (tasks w)" and "tasks w ! tid = Finished"
  shows "tid < length (tasks (snd (disconnect cid code w)))
    \<and> tasks (snd (disconnect cid code w)) ! tid = Finished"
proof -
  let ?w6 = "send_goodbye cid code (persist_session cid
        (leave_group cid (track_duration cid (unregister cid w))))"
  have t: "tasks ?w6 = tasks w"
    by (simp add: send_goodbye_fields persist_session_fields before_persist_fields)
  show ?thesis
    using assms t task_cancel_finished [of tid ?w6]
    by (simp add: disconnect_eq stop_heartbeat_def upd_consumer_def split: option.splits)
qed

lemma graceful_shutdown_finished:
  assumes "tid < length (tasks w)" and "tasks w ! tid = Finished"
  shows "tid < length (tasks (snd (graceful_shutdown g w)))
    \<and> tasks (snd (graceful_shutdown g w)) ! tid = Finished"
proof -
  have "tasks (snd (graceful_shutdown g w)) = tasks (before_wait w)"
    by (simp add: graceful_shutdown_eq)
  moreover have "tasks (before_wait w) =
      tasks (case heartbeat_task w of Some t \<Rightarrow> task_cancel t (w\<lparr>shutdown_initiated := True\<rparr>)
             | None \<Rightarrow> w\<lparr>shutdown_initiated := True\<rparr>)"
    by (cases "heartbeat_task w")
       (simp_all add: before_wait_def Let_def fold_say_goodbye_fields fold_close_fields
          task_cancel_fields)
  ultimately show ?thesis
    using assms task_cancel_finished [of tid "w\<lparr>shutdown_initiated := True\<rparr>"]
    by (cases "heartbeat_task w") simp_all
qed

lemma step_finished:
  assumes "tid < length (tasks w)" and "tasks w ! tid = Finished"
  shows "tid < length (tasks (step e w)) \<and> tasks (step e w) ! tid = Finished"
  using assms
  by (cases e)
     (simp_all add: connect_finished receive_tasks disconnect_finished heartbeat_loop_finished
        graceful_shutdown_finished upd_socket_def)

lemma run_finished:
  assumes "tid < length (tasks w)" and "tasks w ! tid = Finished"
  shows "tid < length (tasks (run es w)) \<and> tasks (run es w) ! tid = Finished"
  using assms
proof (induction es arbitrary: w)
  case Nil
  then show ?case by (simp add: run_Nil)
next
  case (Cons e es)
  from step_finished [OF Cons.prems, of e] Cons.IH [of "step e w"]
  show ?case by (simp add: run_Cons)
qed

lemma heartbeat_loop_over:
  assumes "tid < length (tasks w)" and "tasks w ! tid = Finished"
  shows "heartbeat_loop tid ts w = w"
  using assms by (simp add: heartbeat_loop_def)

section \<open>The heartbeat\<close>

text \<open>
  C6. Once the shutdown flag is set it stays set, and whatever happens afterwards no
  heartbeat is published and the heartbeat counter does not move: a heartbeat task that
  wakes tests the flag before it counts and publishes. And a cancellation that reaches
  a heartbeat task in its sleep ends the task at once, with nothing published or
  counted; whatever happens afterwards the task stays over, and a turn of it does
  nothing.
\<close>

theorem no_heartbeat_after_shutdown:
  "(shutdown_initiated w \<longrightarrow>
      shutdown_initiated (run es w)
    \<and> published (run es w) = published w
    \<and> websocket_heartbeats (run es w) = websocket_heartbeats w)
   \<and> (tid < length (tasks w) \<and> tasks w ! tid = Sleeping t \<longrightarrow>
      tasks (task_cancel tid w) ! tid = Finished
    \<and> published (task_cancel tid w) = published w
    \<and> websocket_heartbeats (task_cancel tid w) = websocket_heartbeats w
    \<and> tasks (run es (task_cancel tid w)) ! tid = Finished
    \<and> heartbeat_loop tid ts (run es (task_cancel tid w)) = run es (task_cancel tid w))"
proof (rule conjI; rule impI)
  assume "shutdown_initiated w"
  then show "shutdown_initiated (run es w)
    \<and> published (run es w) = published w
    \<and> websocket_heartbeats (run es w) = websocket_heartbeats w"
    by (rule run_shutdown)
next
  assume a: "tid < length (tasks w) \<and> tasks w ! tid = Sleeping t"
  then have c: "tid < length (tasks (task_cancel tid w))"
    "tasks (task_cancel tid w) ! tid = Finished"
    by (simp_all add: task_cancel_def)
  from run_finished [OF c]
  have r: "tid < length (tasks (run es (task_cancel tid w)))"
    "tasks (run es (task_cancel tid w)) ! tid = Finished"
    by simp_all
  show "tasks (task_cancel tid w) ! tid = Finished
    \<and> published (task_cancel tid w) = published w
    \<and> websocket_heartbeats (task_cancel tid w) = websocket_heartbeats w
    \<and> tasks (run es (task_cancel tid w)) ! tid = Finished
    \<and> heartbeat_loop tid ts (run es (task_cancel tid w)) = run es (task_cancel tid w)"
    using c r by (simp add: task_cancel_fields heartbeat_loop_over)
qed

theorem no_heartbeat_after_shutdown_witness:
  "shutdown_initiated after_shutdown
   \<and> tasks after_shutdown = [Sleeping 30]
   \<and> published (run [Tick 40, Heartbeat 0 ''t1''] after_shutdown) = []
   \<and> websocket_heartbeats (run [Tick 40, Heartbeat 0 ''t1''] after_shutdown) = 0
   \<and> tasks (run [Tick 40, Heartbeat 0 ''t1''] after_shutdown) = [Finished]
   \<and> tasks one_open ! 0 = Sleeping 30
   \<and> tasks (task_cancel 0 one_open) ! 0 = Finished
   \<and> published (task_cancel 0 one_open) = []"
proof -
  have h: "shutdown_initiated after_shutdown" "tasks after_shutdown = [Sleeping 30]"
    "published after_shutdown = []" "websocket_heartbeats after_shutdown = 0"
    "tasks (run [Tick 40, Heartbeat 0 ''t1''] after_shutdown) = [Finished]"
    by (simp_all add: after_shutdown_def one_open_def handler_defs state_defs Let_def)
  have k: "0 < length (tasks one_open)" "tasks one_open ! 0 = Sleeping 30"
    "published one_open = []"
    by (simp_all add: one_open_def handler_defs state_defs Let_def)
  show ?thesis
    using no_heartbeat_after_shutdown [of after_shutdown "[Tick 40, Heartbeat 0 ''t1'']" 0 30 "''t1''"]
      no_heartbeat_after_shutdown [of one_open "[]" 0 30 "''t1''"] h k
    by simp
qed

text \<open>
  C4, the code at the failing input. Clients 1 and 2 connect, 1 leaves, 2 leaves, and
  client 3 connects four seconds after the first. The task that consumer 1 started is
  stored on consumer 1 alone, so the disconnect of consumer 2, which empties the
  registry, finds no task to cancel; the connect of consumer 3 finds none either and
  starts a second one. Two heartbeat tasks are active, and both publish.
\<close>

theorem two_heartbeat_tasks:
  "active_connections (run come_and_go init_world) = []
   \<and> tasks (run come_and_go init_world) = [Sleeping 30]
   \<and> now (run come_back init_world) = 4
   \<and> active_connections (run come_back init_world) = [3]
   \<and> tasks (run come_back init_world) = [Sleeping 30, Sleeping 34]
   \<and> active_tasks (run come_back init_world) = 2
   \<and> now (run both_beat init_world) = 34
   \<and> websocket_heartbeats (run both_beat init_world) = 2
   \<and> published (run both_beat init_world) =
       [JDict [(''ts'', JStr ''t2'')], JDict [(''ts'', JStr ''t3'')]]
   \<and> active_tasks (run both_beat init_world) = 2"
  by (simp add: both_beat_def come_back_def come_and_go_def active_tasks_def handler_defs
      state_defs Let_def)

text \<open>
  C5, the code at the failing inputs. When consumer 2 empties the registry the heartbeat
  task that consumer 1 started stays active; and \<^verbatim>\<open>graceful_shutdown\<close> reads the class
  attribute \<^verbatim>\<open>heartbeat_task\<close>, which is never assigned, so the shutdown of a process
  with one open connection leaves its heartbeat task in its sleep.
\<close>

theorem heartbeat_not_cancelled:
  "active_connections (run come_and_go init_world) = []
   \<and> active_tasks (run come_and_go init_world) = 1
   \<and> heartbeat_task one_open = None
   \<and> tasks one_open = [Sleeping 30]
   \<and> shutdown_initiated after_shutdown
   \<and> tasks after_shutdown = [Sleeping 30]"
  by (simp add: come_and_go_def after_shutdown_def one_open_def active_tasks_def
      handler_defs state_defs Let_def)

end
